theory Spec2Isabelle
  imports Complex_Main "HOL-Library.Multiset"
begin

section \<open>Shared vocabulary: Python exceptions as values\<close>

text \<open>
  The two modules verified here are
  \<^verbatim>\<open>megengine/core/tensor/array_method.py\<close> (operator dispatch) and
  \<^verbatim>\<open>megengine/core/tensor/dtype.py\<close> (quantized dtypes).
  Every \<^verbatim>\<open>raise\<close> and every failing \<^verbatim>\<open>assert\<close> of the source is a value
  \<open>Inl e\<close> of the result type \<open>error + 'a\<close>.

  A message built with \<^verbatim>\<open>"...{}...".format(a, b)\<close> is kept as the template together with
  its arguments, so that what a message names can be read off the value.
\<close>

datatype ElwMod =
    ElwMod_LT | ElwMod_LEQ | ElwMod_EQ | ElwMod_NOT
  | ElwMod_NEGATE | ElwMod_ABS | ElwMod_ROUND | ElwMod_FLOOR | ElwMod_CEIL
  | ElwMod_ADD | ElwMod_SUB | ElwMod_MUL | ElwMod_TRUE_DIV | ElwMod_FLOOR_DIV
  | ElwMod_MOD | ElwMod_POW | ElwMod_SHL | ElwMod_SHR
  | ElwMod_AND | ElwMod_OR | ElwMod_XOR

record QuantDtypeMeta =
  name :: string
  cname :: "string option"
  np_dtype_str :: string
  qmin :: int
  qmax :: int
  is_unsigned :: bool

datatype fmt_arg = ArgInt int | ArgStr string | ArgMode ElwMod | ArgMeta QuantDtypeMeta

datatype message = Literal string | Format string "fmt_arg list"

datatype error =
    ValueError message
  | TypeError message
  | AssertionError message
  | KeyError string
  | IndexError
  | EngineError string

section \<open>array\_method.py: the operator dispatch layer\<close>

subsection \<open>Primitive descriptors and the execution interface\<close>

text \<open>
  \<^verbatim>\<open>builtin.Reduce(mode=mode)\<close> leaves \<^verbatim>\<open>axis\<close> and \<^verbatim>\<open>keepdim\<close> at the
  primitive's defaults (\<open>None\<close> below); \<^verbatim>\<open>builtin.Reduce(mode=mode, axis=ai, keepdim=keepdims)\<close>
  sets both.
\<close>

datatype builtin =
    Elemwise ElwMod
  | Reduce string "int option" "bool option"
  | Dot

datatype Strategy = PROFILE | HEURISTIC | REPRODUCIBLE

text \<open>
  The positional arguments \<^verbatim>\<open>_matmul\<close> hands to \<^verbatim>\<open>matmul_cpp\<close> and
  \<^verbatim>\<open>batched_matmul_cpp\<close>. The last argument of the source, the callback
  (\<^verbatim>\<open>symbolicMatrixMul\<close> or \<^verbatim>\<open>symbolicBatchedMatrixMul\<close>), is fixed by which of
  the two is called. A strategy is the set of flags or-ed together.
\<close>

record 't matmul_args =
  arg_inp1 :: 't
  arg_inp2 :: 't
  arg_dim1 :: nat
  arg_dim2 :: nat
  arg_transpose_a :: bool
  arg_transpose_b :: bool
  arg_compute_mode :: string
  arg_format :: string
  arg_benchmark_kernel :: bool
  arg_deterministic_kernel :: bool
  arg_strategy :: "Strategy set"

text \<open>One entry per call that leaves the dispatch layer, in the order the calls are made.\<close>

datatype 't call =
    Apply builtin "'t list"
  | AstypeCpp 't string
  | MatmulCpp "'t matmul_args"
  | BatchedMatmulCpp "'t matmul_args"

text \<open>
  What the mixin needs from the tensor type and from the engine
  (\<^verbatim>\<open>_imperative_rt.core2\<close>): \<^verbatim>\<open>apply\<close> returns a tuple of tensors or fails,
  \<^verbatim>\<open>_tuple_shape\<close> may be \<^verbatim>\<open>None\<close>, \<^verbatim>\<open>dtype\<close> is compared with
  \<^verbatim>\<open>np.bool_\<close>.
\<close>

record ('t, 'd) engine =
  py_apply :: "builtin \<Rightarrow> 't list \<Rightarrow> error + 't list"
  astype_cpp :: "'t \<Rightarrow> string \<Rightarrow> error + 't"
  matmul_cpp :: "'t matmul_args \<Rightarrow> error + 't"
  batched_matmul_cpp :: "'t matmul_args \<Rightarrow> error + 't"
  tuple_shape :: "'t \<Rightarrow> nat list option"
  tensor_dtype :: "'t \<Rightarrow> 'd"
  np_bool :: 'd

text \<open>The global switches of \<^verbatim>\<open>_config\<close> read by \<^verbatim>\<open>_matmul\<close>.\<close>

record config =
  benchmark_kernel :: bool
  deterministic_kernel :: bool
  get_actual_op_param :: "string \<Rightarrow> string"

type_synonym 't outcome = "(error + 't) \<times> 't call list"

text \<open>\<^verbatim>\<open>(result,) = apply(op, *args)\<close>: unpacking fails unless exactly one tensor comes back.\<close>

definition unpack1 :: "error + 't list \<Rightarrow> error + 't" where
  "unpack1 r =
     (case r of
        Inl e \<Rightarrow> Inl e
      | Inr ts \<Rightarrow>
          (case ts of
             [] \<Rightarrow> Inl (ValueError (Literal ''not enough values to unpack''))
           | t # rest \<Rightarrow>
               (case rest of
                  [] \<Rightarrow> Inr t
                | _ # _ \<Rightarrow> Inl (ValueError (Literal ''too many values to unpack'')))))"

definition elwise_apply :: "('t, 'd) engine \<Rightarrow> 't list \<Rightarrow> ElwMod \<Rightarrow> 't outcome" where
  "elwise_apply E args mode =
     (let op = Elemwise mode
      in (unpack1 (py_apply E op args), [Apply op args]))"

definition elwise :: "('t, 'd) engine \<Rightarrow> 't list \<Rightarrow> ElwMod \<Rightarrow> 't outcome" where
  "elwise E args mode = elwise_apply E args mode"

text \<open>\<^verbatim>\<open>x.astype("bool")\<close> on the result of a call: nothing more happens once a call has failed.\<close>

definition then_astype :: "('t, 'd) engine \<Rightarrow> 't outcome \<Rightarrow> string \<Rightarrow> 't outcome" where
  "then_astype E r dt =
     (case fst r of
        Inl e \<Rightarrow> (Inl e, snd r)
      | Inr t \<Rightarrow> (astype_cpp E t dt, snd r @ [AstypeCpp t dt]))"

subsection \<open>Comparisons\<close>

definition dunder_lt :: "('t, 'd) engine \<Rightarrow> 't \<Rightarrow> 't \<Rightarrow> 't outcome" where
  "dunder_lt E self val = then_astype E (elwise E [self, val] ElwMod_LT) ''bool''"

definition dunder_le :: "('t, 'd) engine \<Rightarrow> 't \<Rightarrow> 't \<Rightarrow> 't outcome" where
  "dunder_le E self val = then_astype E (elwise E [self, val] ElwMod_LEQ) ''bool''"

definition dunder_gt :: "('t, 'd) engine \<Rightarrow> 't \<Rightarrow> 't \<Rightarrow> 't outcome" where
  "dunder_gt E self val = then_astype E (elwise E [val, self] ElwMod_LT) ''bool''"

definition dunder_ge :: "('t, 'd) engine \<Rightarrow> 't \<Rightarrow> 't \<Rightarrow> 't outcome" where
  "dunder_ge E self val = then_astype E (elwise E [val, self] ElwMod_LEQ) ''bool''"

subsection \<open>Logical operators\<close>

definition logical_unary_elwise :: "('t, 'd) engine \<Rightarrow> ElwMod \<Rightarrow> 't \<Rightarrow> 't outcome" where
  "logical_unary_elwise E mode self =
     (if tensor_dtype E self \<noteq> np_bool E
      then (Inl (TypeError (Format ''{} requires a bool tensor'' [ArgMode mode])), [])
      else elwise E [self] mode)"

text \<open>The flag \<open>rv\<close> is the source's \<^verbatim>\<open>rev\<close>: the reflected form swaps the operands.\<close>

definition logical_binary_elwise ::
  "('t, 'd) engine \<Rightarrow> ElwMod \<Rightarrow> bool \<Rightarrow> 't \<Rightarrow> 't \<Rightarrow> 't outcome" where
  "logical_binary_elwise E mode rv self val =
     (if \<not> rv then
        (if tensor_dtype E self \<noteq> np_bool E \<or> tensor_dtype E val \<noteq> np_bool E
         then (Inl (TypeError (Format ''{} requires 2 bool tensors'' [ArgMode mode])), [])
         else elwise E [self, val] mode)
      else
        (if tensor_dtype E self \<noteq> np_bool E \<or> tensor_dtype E val \<noteq> np_bool E
         then (Inl (TypeError (Format ''{} requires 2 bool tensors'' [ArgMode mode])), [])
         else elwise E [val, self] mode))"

definition dunder_invert :: "('t, 'd) engine \<Rightarrow> 't \<Rightarrow> 't outcome" where
  "dunder_invert E = logical_unary_elwise E ElwMod_NOT"

definition dunder_and :: "('t, 'd) engine \<Rightarrow> 't \<Rightarrow> 't \<Rightarrow> 't outcome" where
  "dunder_and E = logical_binary_elwise E ElwMod_AND False"

definition dunder_or :: "('t, 'd) engine \<Rightarrow> 't \<Rightarrow> 't \<Rightarrow> 't outcome" where
  "dunder_or E = logical_binary_elwise E ElwMod_OR False"

definition dunder_xor :: "('t, 'd) engine \<Rightarrow> 't \<Rightarrow> 't \<Rightarrow> 't outcome" where
  "dunder_xor E = logical_binary_elwise E ElwMod_XOR False"

definition dunder_rand :: "('t, 'd) engine \<Rightarrow> 't \<Rightarrow> 't \<Rightarrow> 't outcome" where
  "dunder_rand E = logical_binary_elwise E ElwMod_AND True"

definition dunder_ror :: "('t, 'd) engine \<Rightarrow> 't \<Rightarrow> 't \<Rightarrow> 't outcome" where
  "dunder_ror E = logical_binary_elwise E ElwMod_OR True"

definition dunder_rxor :: "('t, 'd) engine \<Rightarrow> 't \<Rightarrow> 't \<Rightarrow> 't outcome" where
  "dunder_rxor E = logical_binary_elwise E ElwMod_XOR True"

subsection \<open>Rank\<close>

definition ndim :: "('t, 'd) engine \<Rightarrow> 't \<Rightarrow> error + nat" where
  "ndim E self =
     (case tuple_shape E self of
        None \<Rightarrow> Inl (ValueError (Literal ''unkown ndim''))
      | Some shape \<Rightarrow> Inr (length shape))"

subsection \<open>Matrix multiplication\<close>

definition matmul ::
  "('t, 'd) engine \<Rightarrow> config \<Rightarrow> 't \<Rightarrow> 't \<Rightarrow> bool \<Rightarrow> bool \<Rightarrow> string \<Rightarrow> string \<Rightarrow> 't outcome" where
  "matmul E C inp1 inp2 transpose_a transpose_b compute_mode format =
     (case ndim E inp1 of
        Inl e \<Rightarrow> (Inl e, [])
      | Inr dim1 \<Rightarrow>
     (case ndim E inp2 of
        Inl e \<Rightarrow> (Inl e, [])
      | Inr dim2 \<Rightarrow>
     if \<not> (dim1 > 0 \<and> dim2 > 0) then (Inl (AssertionError (Literal [])), [])
     else
       let maxdim = (if dim1 > dim2 then dim1 else dim2);
           compute_mode' = get_actual_op_param C compute_mode;
           strategy0 = {};
           strategy1 = (if benchmark_kernel C then insert PROFILE strategy0
                        else insert HEURISTIC strategy0);
           strategy = (if deterministic_kernel C then insert REPRODUCIBLE strategy1
                       else strategy1);
           args = \<lparr>arg_inp1 = inp1, arg_inp2 = inp2, arg_dim1 = dim1, arg_dim2 = dim2,
                   arg_transpose_a = transpose_a, arg_transpose_b = transpose_b,
                   arg_compute_mode = compute_mode', arg_format = format,
                   arg_benchmark_kernel = benchmark_kernel C,
                   arg_deterministic_kernel = deterministic_kernel C,
                   arg_strategy = strategy\<rparr>
       in if dim1 = 1 \<and> dim2 = 1
          then (unpack1 (py_apply E Dot [inp1, inp2]), [Apply Dot [inp1, inp2]])
          else if maxdim \<le> 2 \<or> (dim2 \<le> 2 \<and> \<not> transpose_a)
          then (matmul_cpp E args, [MatmulCpp args])
          else (batched_matmul_cpp E args, [BatchedMatmulCpp args])))"

text \<open>\<^verbatim>\<open>__matmul__\<close> and \<^verbatim>\<open>__rmatmul__\<close> call \<^verbatim>\<open>_matmul\<close> with its defaults.\<close>

definition dunder_matmul :: "('t, 'd) engine \<Rightarrow> config \<Rightarrow> 't \<Rightarrow> 't \<Rightarrow> 't outcome" where
  "dunder_matmul E C self other = matmul E C self other False False ''default'' ''default''"

definition dunder_rmatmul :: "('t, 'd) engine \<Rightarrow> config \<Rightarrow> 't \<Rightarrow> 't \<Rightarrow> 't outcome" where
  "dunder_rmatmul E C self other = matmul E C other self False False ''default'' ''default''"

text \<open>The three ways out of \<^verbatim>\<open>_matmul\<close>, read off the call it made.\<close>

datatype dispatch_path = DotPath | PlainPath | BatchedPath

fun path_of_call :: "'t call \<Rightarrow> dispatch_path option" where
  "path_of_call (Apply Dot xs) = Some DotPath"
| "path_of_call (MatmulCpp a) = Some PlainPath"
| "path_of_call (BatchedMatmulCpp a) = Some BatchedPath"
| "path_of_call c = None"

subsection \<open>Reductions\<close>

text \<open>
  Modelled from the spec: \<^verbatim>\<open>_normalize_axis\<close> lives in
  \<^verbatim>\<open>megengine/core/tensor/utils.py\<close>, which is not among the sources. Section 4.1 of
  the specification says of the call \<^verbatim>\<open>_normalize_axis(self.ndim, axis, reverse=True)\<close>:
  "normalize axes against current rank in descending order". A negative axis counts
  from the end, so it is normalized by adding the rank; the specification gives no
  failure case.
\<close>

definition normalize_axis :: "nat \<Rightarrow> int list \<Rightarrow> bool \<Rightarrow> int list" where
  "normalize_axis n axis reverse =
     (let xs = sort (map (\<lambda>x. if x < 0 then int n + x else x) axis)
      in if reverse then rev xs else xs)"

text \<open>The three shapes of the \<^verbatim>\<open>axis\<close> argument that \<^verbatim>\<open>_reduce\<close> tells apart.\<close>

datatype axis_arg = AxisNone | AxisIterable "int list" | AxisInt int

text \<open>
  The loop \<^verbatim>\<open>for ai in axis: op = ...; (data,) = apply(op, data)\<close>: an exception
  leaves the loop at once.
\<close>

fun reduce_loop ::
  "('t, 'd) engine \<Rightarrow> string \<Rightarrow> bool \<Rightarrow> int list \<Rightarrow> 't \<Rightarrow> 't outcome" where
  "reduce_loop E mode keepdims [] data = (Inr data, [])"
| "reduce_loop E mode keepdims (ai # rest) data =
     (let op = Reduce mode (Some ai) (Some keepdims)
      in case unpack1 (py_apply E op [data]) of
           Inl e \<Rightarrow> (Inl e, [Apply op [data]])
         | Inr data' \<Rightarrow>
             (let r = reduce_loop E mode keepdims rest data'
              in (fst r, Apply op [data] # snd r)))"

definition reduce :: "('t, 'd) engine \<Rightarrow> string \<Rightarrow> 't \<Rightarrow> axis_arg \<Rightarrow> bool \<Rightarrow> 't outcome" where
  "reduce E mode self axis keepdims =
     (case axis of
        AxisNone \<Rightarrow>
          if keepdims
          then (Inl (AssertionError (Literal ''can not set axis=None and keepdims=True'')), [])
          else (unpack1 (py_apply E (Reduce mode None None) [self]),
                [Apply (Reduce mode None None) [self]])
      | AxisIterable axs \<Rightarrow>
          (case ndim E self of
             Inl e \<Rightarrow> (Inl e, [])
           | Inr n \<Rightarrow> reduce_loop E mode keepdims (normalize_axis n axs True) self)
      | AxisInt a \<Rightarrow>
          (let op = Reduce mode (Some a) (Some keepdims)
           in (unpack1 (py_apply E op [self]), [Apply op [self]])))"

definition sum_method :: "('t, 'd) engine \<Rightarrow> 't \<Rightarrow> axis_arg \<Rightarrow> bool \<Rightarrow> 't outcome" where
  "sum_method E self axis keepdims = reduce E ''sum'' self axis keepdims"

definition prod_method :: "('t, 'd) engine \<Rightarrow> 't \<Rightarrow> axis_arg \<Rightarrow> bool \<Rightarrow> 't outcome" where
  "prod_method E self axis keepdims = reduce E ''product'' self axis keepdims"

definition min_method :: "('t, 'd) engine \<Rightarrow> 't \<Rightarrow> axis_arg \<Rightarrow> bool \<Rightarrow> 't outcome" where
  "min_method E self axis keepdims = reduce E ''min'' self axis keepdims"

definition max_method :: "('t, 'd) engine \<Rightarrow> 't \<Rightarrow> axis_arg \<Rightarrow> bool \<Rightarrow> 't outcome" where
  "max_method E self axis keepdims = reduce E ''max'' self axis keepdims"

definition mean_method :: "('t, 'd) engine \<Rightarrow> 't \<Rightarrow> axis_arg \<Rightarrow> bool \<Rightarrow> 't outcome" where
  "mean_method E self axis keepdims = reduce E ''mean'' self axis keepdims"

text \<open>The primitive of a call and its operands, for reading a call sequence.\<close>

fun call_builtin :: "'t call \<Rightarrow> builtin option" where
  "call_builtin (Apply op xs) = Some op"
| "call_builtin c = None"

fun call_operands :: "'t call \<Rightarrow> 't list" where
  "call_operands (Apply op xs) = xs"
| "call_operands (AstypeCpp t d) = [t]"
| "call_operands (MatmulCpp a) = [arg_inp1 a, arg_inp2 a]"
| "call_operands (BatchedMatmulCpp a) = [arg_inp1 a, arg_inp2 a]"

text \<open>
  A call sequence is chained from \<open>d\<close> when its first call takes \<open>d\<close> as its only operand and
  every later call takes the single tensor the call before it returned.
\<close>

fun chained :: "('t, 'd) engine \<Rightarrow> 't \<Rightarrow> 't call list \<Rightarrow> bool" where
  "chained E d [] = True"
| "chained E d (c # cs) =
     (call_operands c = [d] \<and>
      (cs = [] \<or>
       (case call_builtin c of
          None \<Rightarrow> False
        | Some op \<Rightarrow>
            (case unpack1 (py_apply E op [d]) of
               Inl e \<Rightarrow> False
             | Inr d' \<Rightarrow> chained E d' cs))))"

subsection \<open>A small engine to run the dispatch layer on\<close>

text \<open>
  A stand-in for the execution engine, used to run the definitions on concrete tensors: a
  tensor is its dtype name and its shape (\<open>None\<close> when the shape is not known yet). A
  single-axis reduction drops the axis or keeps it with extent 1; every other primitive
  hands back its first operand.
\<close>

datatype demo_tensor = DemoTensor string "nat list option"

fun demo_dtype :: "demo_tensor \<Rightarrow> string" where
  "demo_dtype (DemoTensor d s) = d"

fun demo_shape :: "demo_tensor \<Rightarrow> nat list option" where
  "demo_shape (DemoTensor d s) = s"

fun demo_apply :: "builtin \<Rightarrow> demo_tensor list \<Rightarrow> error + demo_tensor list" where
  "demo_apply op [] = Inl (EngineError ''no operand'')"
| "demo_apply (Reduce m (Some a) (Some k)) (DemoTensor d (Some s) # ts) =
     (let i = (if a < 0 then a + int (length s) else a)
      in if 0 \<le> i \<and> i < int (length s)
         then Inr [DemoTensor d (Some (if k then s[nat i := 1]
                                       else take (nat i) s @ drop (Suc (nat i)) s))]
         else Inl (EngineError ''axis out of range''))"
| "demo_apply op (t # ts) = Inr [t]"

definition demo_engine :: "(demo_tensor, string) engine" where
  "demo_engine =
     \<lparr>py_apply = demo_apply,
      astype_cpp = (\<lambda>t d. Inr (DemoTensor d (demo_shape t))),
      matmul_cpp = (\<lambda>a. Inr (arg_inp1 a)),
      batched_matmul_cpp = (\<lambda>a. Inr (arg_inp1 a)),
      tuple_shape = demo_shape,
      tensor_dtype = demo_dtype,
      np_bool = ''bool''\<rparr>"

definition demo_config :: config where
  "demo_config =
     \<lparr>benchmark_kernel = False, deterministic_kernel = True,
      get_actual_op_param = (\<lambda>m. m)\<rparr>"

section \<open>dtype.py: quantized dtypes\<close>

text \<open>
  Numbers: a Python \<^verbatim>\<open>int\<close> is an \<open>int\<close>. A Python \<^verbatim>\<open>float\<close> is a binary64 number, and
  an element of a float array is a number of the array's format (binary16, binary32 or
  binary64), or an infinity, or \<^verbatim>\<open>nan\<close>; every arithmetic operation rounds its exact
  result to the format, ties to even. Zero has no sign here. An argument of type \<open>real\<close>
  (a scale, a zero-point) is the number written in the call; it is converted where the
  code converts it.
\<close>

subsection \<open>Descriptors\<close>

text \<open>
  \<^verbatim>\<open>QuantDtypeMeta.__new__\<close>: \<^verbatim>\<open>is_unsigned\<close> defaults to whether the storage name starts
  with \<^verbatim>\<open>u\<close>; taking the first character of an empty string raises.
\<close>

definition QuantDtypeMeta_new ::
  "string \<Rightarrow> string option \<Rightarrow> string \<Rightarrow> int \<Rightarrow> int \<Rightarrow> bool option \<Rightarrow> error + QuantDtypeMeta" where
  "QuantDtypeMeta_new nm cn storage lo hi unsigned =
     (case unsigned of
        Some u \<Rightarrow>
          Inr \<lparr>name = nm, cname = cn, np_dtype_str = storage, qmin = lo, qmax = hi,
               is_unsigned = u\<rparr>
      | None \<Rightarrow>
          (case storage of
             [] \<Rightarrow> Inl IndexError
           | c # cs \<Rightarrow>
               Inr \<lparr>name = nm, cname = cn, np_dtype_str = storage, qmin = lo, qmax = hi,
                    is_unsigned = (c = CHR ''u'')\<rparr>))"

text \<open>The catalog, each entry as its constructor call leaves it (see \<open>builtin_quant_dtypes_built\<close>).\<close>

definition builtin_quant_dtypes :: "(string \<times> QuantDtypeMeta) list" where
  "builtin_quant_dtypes =
     [(''quint8'', \<lparr>name = ''quint8'', cname = Some ''Quantized8Asymm'', np_dtype_str = ''uint8'',
                   qmin = 0, qmax = 255, is_unsigned = True\<rparr>),
      (''qint8'', \<lparr>name = ''qint8'', cname = Some ''QuantizedS8'', np_dtype_str = ''int8'',
                  qmin = - 128, qmax = 127, is_unsigned = False\<rparr>),
      (''qint8_narrow'', \<lparr>name = ''qint8_narrow'', cname = Some ''QuantizedS8'',
                         np_dtype_str = ''int8'', qmin = - 127, qmax = 127, is_unsigned = False\<rparr>),
      (''quint4'', \<lparr>name = ''quint4'', cname = Some ''Quantized4Asymm'', np_dtype_str = ''uint8'',
                   qmin = 0, qmax = 15, is_unsigned = True\<rparr>),
      (''qint4'', \<lparr>name = ''qint4'', cname = Some ''QuantizedS4'', np_dtype_str = ''int8'',
                  qmin = - 8, qmax = 7, is_unsigned = False\<rparr>),
      (''qint1'', \<lparr>name = ''qint1'', cname = Some ''QuantizedS1'', np_dtype_str = ''int8'',
                  qmin = 0, qmax = 1, is_unsigned = False\<rparr>),
      (''qint32'', \<lparr>name = ''qint32'', cname = Some ''QuantizedS32'', np_dtype_str = ''int32'',
                   qmin = - (2 ^ 31), qmax = 2 ^ 31 - 1, is_unsigned = False\<rparr>),
      (''quint2'', \<lparr>name = ''quint2'', cname = None, np_dtype_str = ''uint8'',
                   qmin = 0, qmax = 3, is_unsigned = True\<rparr>),
      (''qint2'', \<lparr>name = ''qint2'', cname = None, np_dtype_str = ''int8'',
                  qmin = - 2, qmax = 1, is_unsigned = False\<rparr>)]"

text \<open>\<^verbatim>\<open>_builtin_quant_dtypes[key]\<close>.\<close>

definition builtin_quant_dtype :: "string \<Rightarrow> error + QuantDtypeMeta" where
  "builtin_quant_dtype key =
     (case map_of builtin_quant_dtypes key of
        None \<Rightarrow> Inl (KeyError key)
      | Some m \<Rightarrow> Inr m)"

subsection \<open>NumPy dtypes with metadata\<close>

text \<open>
  The dictionary under the metadata key \<^verbatim>\<open>"mgb_dtype"\<close>; \<open>mgb_zero_point = None\<close> is a
  dictionary without the key \<^verbatim>\<open>"zero_point"\<close>. A dtype made by NumPy alone has no
  metadata.
\<close>

record mgb_dtype =
  mgb_name :: string
  mgb_scale :: real
  mgb_zero_point :: "int option"

record np_dtype =
  dtype_str :: string
  metadata :: "mgb_dtype option"

definition np_float32 :: np_dtype where
  "np_float32 = \<lparr>dtype_str = ''float32'', metadata = None\<rparr>"

text \<open>
  Modelled from the spec: \<^verbatim>\<open>is_quantize\<close> is imported from the compiled module
  \<^verbatim>\<open>_imperative_rt.common\<close>, which is not among the sources. Section 3 of the
  specification: a quantized value is "a concrete numeric type tagged with metadata
  {name, scale, zero_point?}".
\<close>

definition is_quantize :: "np_dtype \<Rightarrow> bool" where
  "is_quantize d = (metadata d \<noteq> None)"

subsection \<open>Floating-point numbers\<close>

text \<open>Python's \<^verbatim>\<open>int(x)\<close> and the conversion of a float to an integer: towards zero.\<close>

definition trunc :: "real \<Rightarrow> int" where
  "trunc x = (if x < 0 then \<lceil>x\<rceil> else \<lfloor>x\<rfloor>)"

text \<open>Rounding to the nearest integer, a tie to the even neighbour.\<close>

definition round_half_even :: "real \<Rightarrow> real" where
  "round_half_even x =
     (let f = \<lfloor>x\<rfloor>; d = x - of_int f
      in if d < 1 / 2 then of_int f
         else if 1 / 2 < d then of_int (f + 1)
         else if even f then of_int f else of_int (f + 1))"

text \<open>
  A format has \<open>precision\<close> significant bits and normal exponents from \<open>emin\<close> to \<open>emax\<close>.
  \<open>exponent F y\<close> is the binade of \<open>y > 0\<close>: the least \<open>e \<ge> emin\<close> with \<open>y < 2^(e+1)\<close>
  (so subnormal numbers share the binade \<open>emin\<close>), searched upwards and stopping at
  \<open>emax + 1\<close>. \<open>round_to_format\<close> rounds to the nearest multiple of the binade's unit in
  the last place, ties to even, and overflows to an infinity as IEEE 754 does.
\<close>

datatype npfloat = Fin real | PosInf | NegInf | NaN

datatype float_format = Binary16 | Binary32 | Binary64

fun precision :: "float_format \<Rightarrow> int" where
  "precision Binary16 = 11"
| "precision Binary32 = 24"
| "precision Binary64 = 53"

fun emin :: "float_format \<Rightarrow> int" where
  "emin Binary16 = - 14"
| "emin Binary32 = - 126"
| "emin Binary64 = - 1022"

fun emax :: "float_format \<Rightarrow> int" where
  "emax Binary16 = 15"
| "emax Binary32 = 127"
| "emax Binary64 = 1023"

fun find_exponent :: "nat \<Rightarrow> int \<Rightarrow> real \<Rightarrow> int" where
  "find_exponent 0 e y = e"
| "find_exponent (Suc n) e y = (if y < 2 powi (e + 1) then e else find_exponent n (e + 1) y)"

definition exponent :: "float_format \<Rightarrow> real \<Rightarrow> int" where
  "exponent F y = find_exponent (nat (emax F + 1 - emin F)) (emin F) y"

definition round_to_format :: "float_format \<Rightarrow> real \<Rightarrow> npfloat" where
  "round_to_format F x =
     (if x = 0 then Fin 0
      else
        let ulp = 2 powi (exponent F \<bar>x\<bar> - precision F + 1);
            r = round_half_even (x / ulp) * ulp
        in if 2 powi (emax F + 1) \<le> \<bar>r\<bar> then (if 0 < x then PosInf else NegInf)
           else Fin r)"

text \<open>
  Conversion of a number to a format, and arithmetic in a format: the exact result,
  rounded; the IEEE 754 rules otherwise.
\<close>

fun to_format :: "float_format \<Rightarrow> npfloat \<Rightarrow> npfloat" where
  "to_format F (Fin x) = round_to_format F x"
| "to_format F PosInf = PosInf"
| "to_format F NegInf = NegInf"
| "to_format F NaN = NaN"

fun fl_neg :: "npfloat \<Rightarrow> npfloat" where
  "fl_neg (Fin x) = Fin (- x)"
| "fl_neg PosInf = NegInf"
| "fl_neg NegInf = PosInf"
| "fl_neg NaN = NaN"

fun fl_add :: "float_format \<Rightarrow> npfloat \<Rightarrow> npfloat \<Rightarrow> npfloat" where
  "fl_add F NaN y = NaN"
| "fl_add F x NaN = NaN"
| "fl_add F (Fin x) (Fin y) = round_to_format F (x + y)"
| "fl_add F PosInf NegInf = NaN"
| "fl_add F NegInf PosInf = NaN"
| "fl_add F PosInf y = PosInf"
| "fl_add F NegInf y = NegInf"
| "fl_add F (Fin x) y = y"

definition fl_sub :: "float_format \<Rightarrow> npfloat \<Rightarrow> npfloat \<Rightarrow> npfloat" where
  "fl_sub F x y = fl_add F x (fl_neg y)"

fun fl_mul :: "float_format \<Rightarrow> npfloat \<Rightarrow> npfloat \<Rightarrow> npfloat" where
  "fl_mul F NaN y = NaN"
| "fl_mul F x NaN = NaN"
| "fl_mul F (Fin x) (Fin y) = round_to_format F (x * y)"
| "fl_mul F (Fin x) y = (if x = 0 then NaN else if 0 < x then y else fl_neg y)"
| "fl_mul F x (Fin y) = (if y = 0 then NaN else if 0 < y then x else fl_neg x)"
| "fl_mul F x y = (if x = y then PosInf else NegInf)"

fun fl_div :: "float_format \<Rightarrow> npfloat \<Rightarrow> npfloat \<Rightarrow> npfloat" where
  "fl_div F NaN y = NaN"
| "fl_div F x NaN = NaN"
| "fl_div F (Fin x) (Fin y) =
     (if y = 0 then (if x = 0 then NaN else if 0 < x then PosInf else NegInf)
      else round_to_format F (x / y))"
| "fl_div F (Fin x) y = Fin 0"
| "fl_div F x (Fin y) = (if y < 0 then fl_neg x else x)"
| "fl_div F x y = NaN"

fun rint :: "npfloat \<Rightarrow> npfloat" where
  "rint (Fin x) = Fin (round_half_even x)"
| "rint x = x"

text \<open>\<^verbatim>\<open>np.maximum\<close> and \<^verbatim>\<open>np.minimum\<close> on one element: \<^verbatim>\<open>nan\<close> wins.\<close>

fun fl_max :: "npfloat \<Rightarrow> npfloat \<Rightarrow> npfloat" where
  "fl_max NaN y = NaN"
| "fl_max x NaN = NaN"
| "fl_max PosInf y = PosInf"
| "fl_max x PosInf = PosInf"
| "fl_max NegInf y = y"
| "fl_max x NegInf = x"
| "fl_max (Fin x) (Fin y) = Fin (max x y)"

fun fl_min :: "npfloat \<Rightarrow> npfloat \<Rightarrow> npfloat" where
  "fl_min NaN y = NaN"
| "fl_min x NaN = NaN"
| "fl_min NegInf y = NegInf"
| "fl_min x NegInf = NegInf"
| "fl_min PosInf y = y"
| "fl_min x PosInf = x"
| "fl_min (Fin x) (Fin y) = Fin (min x y)"

subsection \<open>Arrays\<close>

text \<open>
  An array is its dtype and its elements; an integer array holds integers. The
  operations below are NumPy's, element by element. An array combined with a Python
  scalar keeps its own format when it is a float array, and becomes float64 when it is
  an integer array and the scalar a float; the scalar is converted to that format
  (\<open>py_float\<close>, \<open>py_int\<close>), and so are the elements of the array before the division.
  Long double, complex and object arrays are outside the model.
\<close>

record ndarray =
  dtype :: np_dtype
  elems :: "npfloat list"

datatype pyobj = NdArray ndarray | NotNdArray

definition float_formats :: "(string \<times> float_format) list" where
  "float_formats = [(''float16'', Binary16), (''float32'', Binary32), (''float64'', Binary64)]"

definition array_format :: "np_dtype \<Rightarrow> float_format" where
  "array_format d =
     (case map_of float_formats (dtype_str d) of
        None \<Rightarrow> Binary64
      | Some F \<Rightarrow> F)"

definition py_float :: "float_format \<Rightarrow> real \<Rightarrow> npfloat" where
  "py_float F x =
     (case round_to_format Binary64 x of
        Fin d \<Rightarrow> round_to_format F d
      | PosInf \<Rightarrow> PosInf
      | NegInf \<Rightarrow> NegInf
      | NaN \<Rightarrow> NaN)"

definition py_int :: "float_format \<Rightarrow> int \<Rightarrow> npfloat" where
  "py_int F n = round_to_format F (of_int n)"

definition np_divide :: "float_format \<Rightarrow> npfloat list \<Rightarrow> npfloat \<Rightarrow> npfloat list" where
  "np_divide F xs c = map (\<lambda>v. fl_div F (to_format F v) c) xs"

definition np_round :: "npfloat list \<Rightarrow> npfloat list" where
  "np_round xs = map rint xs"

definition np_add :: "float_format \<Rightarrow> npfloat list \<Rightarrow> npfloat \<Rightarrow> npfloat list" where
  "np_add F xs c = map (\<lambda>v. fl_add F v c) xs"

definition np_subtract :: "float_format \<Rightarrow> npfloat list \<Rightarrow> npfloat \<Rightarrow> npfloat list" where
  "np_subtract F xs c = map (\<lambda>v. fl_sub F v c) xs"

definition np_multiply :: "float_format \<Rightarrow> npfloat list \<Rightarrow> npfloat \<Rightarrow> npfloat list" where
  "np_multiply F xs c = map (\<lambda>v. fl_mul F v c) xs"

definition np_clip :: "npfloat list \<Rightarrow> npfloat \<Rightarrow> npfloat \<Rightarrow> npfloat list" where
  "np_clip xs lo hi = map (\<lambda>v. fl_min (fl_max v lo) hi) xs"

text \<open>
  \<^verbatim>\<open>x.astype(dtype)\<close>: the elements are converted to the storage type named by the dtype
  and the array carries the dtype, metadata included. To a float type the conversion
  rounds. To an integer type it drops the fraction; C leaves the result undefined when
  the value does not fit, and what is modelled is what NumPy gives on x86-64: the value
  is converted to a 32-bit register (64-bit for \<open>uint32\<close> and \<open>int64\<close>), where an
  infinity, \<^verbatim>\<open>nan\<close> or a value out of the register's range gives the most negative
  integer, and the low bits of the register are stored. The table gives, for each
  integer storage type, whether it is signed, its width and the register's width;
  \<open>uint64\<close> and the other storage types are outside the model (the element is kept).
\<close>

definition integer_storage :: "(string \<times> bool \<times> nat \<times> nat) list" where
  "integer_storage =
     [(''int8'', True, 8, 32), (''uint8'', False, 8, 32),
      (''int16'', True, 16, 32), (''uint16'', False, 16, 32),
      (''int32'', True, 32, 32), (''uint32'', False, 32, 64),
      (''int64'', True, 64, 64)]"

definition cvtt :: "nat \<Rightarrow> npfloat \<Rightarrow> int" where
  "cvtt reg x =
     (case x of
        Fin v \<Rightarrow>
          if - (2 ^ (reg - 1)) \<le> trunc v \<and> trunc v < 2 ^ (reg - 1) then trunc v
          else - (2 ^ (reg - 1))
      | PosInf \<Rightarrow> - (2 ^ (reg - 1))
      | NegInf \<Rightarrow> - (2 ^ (reg - 1))
      | NaN \<Rightarrow> - (2 ^ (reg - 1)))"

definition low_bits :: "bool \<Rightarrow> nat \<Rightarrow> int \<Rightarrow> int" where
  "low_bits signed bits t =
     (if signed then (t + 2 ^ (bits - 1)) mod 2 ^ bits - 2 ^ (bits - 1)
      else t mod 2 ^ bits)"

definition cast_elem :: "np_dtype \<Rightarrow> npfloat \<Rightarrow> npfloat" where
  "cast_elem d v =
     (case map_of integer_storage (dtype_str d) of
        Some (signed, bits, reg) \<Rightarrow> Fin (of_int (low_bits signed bits (cvtt reg v)))
      | None \<Rightarrow>
          (case map_of float_formats (dtype_str d) of
             None \<Rightarrow> v
           | Some F \<Rightarrow> to_format F v))"

definition astype :: "npfloat list \<Rightarrow> np_dtype \<Rightarrow> ndarray" where
  "astype xs d = \<lparr>dtype = d, elems = map (cast_elem d) xs\<rparr>"

subsection \<open>Creating quantized dtypes\<close>

definition check_zero_point :: "int \<Rightarrow> QuantDtypeMeta \<Rightarrow> error + unit" where
  "check_zero_point zp dtype_meta =
     (let lo = qmin dtype_meta; hi = qmax dtype_meta
      in if zp < lo \<or> zp > hi
         then Inl (ValueError (Format ''zero_point should be within [{}, {}] for {}''
                                 [ArgInt lo, ArgInt hi, ArgStr (name dtype_meta)]))
         else Inr ())"

definition create_quantized_dtype ::
  "QuantDtypeMeta \<Rightarrow> real \<Rightarrow> real option \<Rightarrow> error + np_dtype" where
  "create_quantized_dtype dtype_meta scale zp =
     (case cname dtype_meta of
        None \<Rightarrow> Inl (ValueError (Literal ''dtype {} without cname attr is not supported.''))
      | Some cn \<Rightarrow>
          if is_unsigned dtype_meta then
            (case zp of
               None \<Rightarrow> Inl (ValueError (Literal ''zero_point should be an integer''))
             | Some z \<Rightarrow>
                 if of_int (trunc z) \<noteq> z
                 then Inl (ValueError (Literal ''zero_point should be an integer''))
                 else
                   (case check_zero_point (trunc z) dtype_meta of
                      Inl e \<Rightarrow> Inl e
                    | Inr u \<Rightarrow>
                        Inr \<lparr>dtype_str = np_dtype_str dtype_meta,
                             metadata = Some \<lparr>mgb_name = cn, mgb_scale = scale,
                                               mgb_zero_point = Some (trunc z)\<rparr>\<rparr>))
          else
            Inr \<lparr>dtype_str = np_dtype_str dtype_meta,
                 metadata = Some \<lparr>mgb_name = cn, mgb_scale = scale,
                                   mgb_zero_point = None\<rparr>\<rparr>)"

definition with_builtin :: "string \<Rightarrow> (QuantDtypeMeta \<Rightarrow> error + 'a) \<Rightarrow> error + 'a" where
  "with_builtin key k = (case builtin_quant_dtype key of Inl e \<Rightarrow> Inl e | Inr m \<Rightarrow> k m)"

definition quint8 :: "real \<Rightarrow> real option \<Rightarrow> error + np_dtype" where
  "quint8 scale zero_point =
     with_builtin ''quint8'' (\<lambda>m. create_quantized_dtype m scale zero_point)"

definition qint8 :: "real \<Rightarrow> error + np_dtype" where
  "qint8 scale = with_builtin ''qint8'' (\<lambda>m. create_quantized_dtype m scale None)"

definition qint32 :: "real \<Rightarrow> error + np_dtype" where
  "qint32 scale = with_builtin ''qint32'' (\<lambda>m. create_quantized_dtype m scale None)"

definition quint4 :: "real \<Rightarrow> real option \<Rightarrow> error + np_dtype" where
  "quint4 scale zero_point =
     with_builtin ''quint4'' (\<lambda>m. create_quantized_dtype m scale zero_point)"

definition qint4 :: "real \<Rightarrow> error + np_dtype" where
  "qint4 scale = with_builtin ''qint4'' (\<lambda>m. create_quantized_dtype m scale None)"

definition qint1 :: "real \<Rightarrow> error + np_dtype" where
  "qint1 scale = with_builtin ''qint1'' (\<lambda>m. create_quantized_dtype m scale None)"

subsection \<open>Conversion to and from a quantized dtype\<close>

text \<open>
  Both functions check first, then read \<^verbatim>\<open>dtype.metadata["mgb_dtype"]\<close>. After the check
  the metadata is there, so the \<open>None\<close> case of the second \<open>case\<close> below is never taken; it
  is what Python would do on \<^verbatim>\<open>None["mgb_dtype"]\<close>.
\<close>

definition convert_to_quantized_dtype ::
  "pyobj \<Rightarrow> np_dtype \<Rightarrow> QuantDtypeMeta \<Rightarrow> error + ndarray" where
  "convert_to_quantized_dtype arr dt dtype_meta =
     (case arr of
        NotNdArray \<Rightarrow>
          Inl (ValueError (Literal ''arr parameter should be instance of np.ndarray''))
      | NdArray a \<Rightarrow>
          if \<not> is_quantize dt \<or> map_option mgb_name (metadata dt) \<noteq> cname dtype_meta
          then Inl (ValueError (Format ''dtype parameter should be a {} dtype''
                                  [ArgMeta dtype_meta]))
          else
            (case metadata dt of
               None \<Rightarrow> Inl (TypeError (Literal ''NoneType object is not subscriptable''))
             | Some arr_metadata \<Rightarrow>
                 if is_unsigned dtype_meta then
                   (case mgb_zero_point arr_metadata of
                      None \<Rightarrow> Inl (KeyError ''zero_point'')
                    | Some zp \<Rightarrow>
                        (let scale = mgb_scale arr_metadata; F = array_format (dtype a)
                         in Inr (astype
                                  (np_clip
                                     (np_add F
                                        (np_round (np_divide F (elems a) (py_float F scale)))
                                        (py_int F zp))
                                     (py_int F (qmin dtype_meta)) (py_int F (qmax dtype_meta)))
                                  dt)))
                 else
                   (let scale = mgb_scale arr_metadata; F = array_format (dtype a)
                    in Inr (astype
                             (np_clip (np_round (np_divide F (elems a) (py_float F scale)))
                                (py_int F (qmin dtype_meta)) (py_int F (qmax dtype_meta)))
                             dt))))"

definition convert_from_quantized_dtype :: "pyobj \<Rightarrow> QuantDtypeMeta \<Rightarrow> error + ndarray" where
  "convert_from_quantized_dtype arr dtype_meta =
     (case arr of
        NotNdArray \<Rightarrow>
          Inl (ValueError (Literal ''arr parameter should be instance of np.ndarray''))
      | NdArray a \<Rightarrow>
          if \<not> is_quantize (dtype a) \<or>
             map_option mgb_name (metadata (dtype a)) \<noteq> cname dtype_meta
          then Inl (ValueError (Format ''arr's dtype should be a {} dtype''
                                  [ArgMeta dtype_meta]))
          else
            (case metadata (dtype a) of
               None \<Rightarrow> Inl (TypeError (Literal ''NoneType object is not subscriptable''))
             | Some arr_metadata \<Rightarrow>
                 if is_unsigned dtype_meta then
                   (case mgb_zero_point arr_metadata of
                      None \<Rightarrow> Inl (KeyError ''zero_point'')
                    | Some zp \<Rightarrow>
                        (let scale = mgb_scale arr_metadata
                         in Inr \<lparr>dtype = np_float32,
                                 elems = np_multiply Binary32
                                           (np_subtract Binary32
                                              (elems (astype (elems a) np_float32))
                                              (py_int Binary32 zp))
                                           (py_float Binary32 scale)\<rparr>))
                 else
                   (let scale = mgb_scale arr_metadata
                    in Inr \<lparr>dtype = np_float32,
                            elems = np_multiply Binary32
                                      (elems (astype (elems a) np_float32))
                                      (py_float Binary32 scale)\<rparr>)))"

definition convert_to_quint8 :: "pyobj \<Rightarrow> np_dtype \<Rightarrow> error + ndarray" where
  "convert_to_quint8 arr q = with_builtin ''quint8'' (convert_to_quantized_dtype arr q)"

definition convert_from_quint8 :: "pyobj \<Rightarrow> error + ndarray" where
  "convert_from_quint8 arr = with_builtin ''quint8'' (convert_from_quantized_dtype arr)"

definition convert_to_qint8 :: "pyobj \<Rightarrow> np_dtype \<Rightarrow> error + ndarray" where
  "convert_to_qint8 arr q = with_builtin ''qint8'' (convert_to_quantized_dtype arr q)"

definition convert_from_qint8 :: "pyobj \<Rightarrow> error + ndarray" where
  "convert_from_qint8 arr = with_builtin ''qint8'' (convert_from_quantized_dtype arr)"

definition convert_to_qint32 :: "pyobj \<Rightarrow> np_dtype \<Rightarrow> error + ndarray" where
  "convert_to_qint32 arr q = with_builtin ''qint32'' (convert_to_quantized_dtype arr q)"

definition convert_from_qint32 :: "pyobj \<Rightarrow> error + ndarray" where
  "convert_from_qint32 arr = with_builtin ''qint32'' (convert_from_quantized_dtype arr)"

definition convert_to_quint4 :: "pyobj \<Rightarrow> np_dtype \<Rightarrow> error + ndarray" where
  "convert_to_quint4 arr q = with_builtin ''quint4'' (convert_to_quantized_dtype arr q)"

definition convert_from_quint4 :: "pyobj \<Rightarrow> error + ndarray" where
  "convert_from_quint4 arr = with_builtin ''quint4'' (convert_from_quantized_dtype arr)"

definition convert_to_qint4 :: "pyobj \<Rightarrow> np_dtype \<Rightarrow> error + ndarray" where
  "convert_to_qint4 arr q = with_builtin ''qint4'' (convert_to_quantized_dtype arr q)"

definition convert_from_qint4 :: "pyobj \<Rightarrow> error + ndarray" where
  "convert_from_qint4 arr = with_builtin ''qint4'' (convert_from_quantized_dtype arr)"

definition convert_to_qint1 :: "pyobj \<Rightarrow> np_dtype \<Rightarrow> error + ndarray" where
  "convert_to_qint1 arr q = with_builtin ''qint1'' (convert_to_quantized_dtype arr q)"

definition convert_from_qint1 :: "pyobj \<Rightarrow> error + ndarray" where
  "convert_from_qint1 arr = with_builtin ''qint1'' (convert_from_quantized_dtype arr)"

section \<open>Properties of the dispatch layer\<close>

subsection \<open>Matrix multiplication: which path is taken\<close>

lemma matmul_single_call:
  assumes "ndim E inp1 = Inr d1" and "ndim E inp2 = Inr d2" and "d1 \<ge> 1" and "d2 \<ge> 1"
  shows "\<exists>c. snd (matmul E C inp1 inp2 transpose_a transpose_b compute_mode format) = [c] \<and>
           path_of_call c =
             Some (if d1 = 1 \<and> d2 = 1 then DotPath
                   else if max d1 d2 \<le> 2 \<or> (d2 \<le> 2 \<and> \<not> transpose_a) then PlainPath
                   else BatchedPath)"
  using assms by (simp add: matmul_def Let_def max_def)

text \<open>
  Claim C1. The path \<^verbatim>\<open>_matmul\<close> takes is a function of the two ranks and of
  \<open>transpose_a\<close> alone. For operands of ranks \<open>d1, d2 \<ge> 1\<close> exactly one call is made; it is
  the dot-product primitive iff \<open>d1 = 1\<close> and \<open>d2 = 1\<close>; it is the plain matrix-multiply
  path iff it is not the dot case and \<open>max d1 d2 \<le> 2\<close> or (\<open>d2 \<le> 2\<close> and \<open>transpose_a\<close> is
  false); it is the batched path in every remaining case. The fourth equivalence is the
  table of the specification: the plain path is taken for the rank pairs (2,2), (1,2),
  (2,1), and for (N,1), (N,2) with \<open>N \<ge> 3\<close> when the first operand is not transposed. The
  last conjunct is the purity: any other call with the same two ranks and the same
  \<open>transpose_a\<close>, whatever the engine, the configuration, the tensors and the remaining
  arguments are, takes the same path.
\<close>

theorem matmul_dispatch_path:
  assumes "ndim E inp1 = Inr d1" and "ndim E inp2 = Inr d2" and "d1 \<ge> 1" and "d2 \<ge> 1"
  shows "\<exists>c p. snd (matmul E C inp1 inp2 transpose_a transpose_b compute_mode format) = [c] \<and>
           path_of_call c = Some p \<and>
           (p = DotPath \<longleftrightarrow> d1 = 1 \<and> d2 = 1) \<and>
           (p = PlainPath \<longleftrightarrow>
              \<not> (d1 = 1 \<and> d2 = 1) \<and> (max d1 d2 \<le> 2 \<or> (d2 \<le> 2 \<and> \<not> transpose_a))) \<and>
           (p = BatchedPath \<longleftrightarrow>
              \<not> (d1 = 1 \<and> d2 = 1) \<and> \<not> (max d1 d2 \<le> 2 \<or> (d2 \<le> 2 \<and> \<not> transpose_a))) \<and>
           (p = PlainPath \<longleftrightarrow>
              (d1, d2) \<in> {(2, 2), (1, 2), (2, 1)} \<or>
              (d1 \<ge> 3 \<and> d2 \<in> {1, 2} \<and> \<not> transpose_a)) \<and>
           (\<forall>E' C' inp1' inp2' transpose_b' compute_mode' format'.
              ndim E' inp1' = Inr d1 \<and> ndim E' inp2' = Inr d2 \<longrightarrow>
              (\<exists>c'. snd (matmul E' C' inp1' inp2' transpose_a transpose_b' compute_mode' format')
                      = [c'] \<and>
                    path_of_call (c' :: 't call) = Some p))"
proof -
  let ?p = "if d1 = 1 \<and> d2 = 1 then DotPath
            else if max d1 d2 \<le> 2 \<or> (d2 \<le> 2 \<and> \<not> transpose_a) then PlainPath
            else BatchedPath"
  obtain c where c: "snd (matmul E C inp1 inp2 transpose_a transpose_b compute_mode format) = [c]"
      "path_of_call c = Some ?p"
    using matmul_single_call [OF assms] by blast
  have table: "(?p = PlainPath) \<longleftrightarrow>
      ((d1, d2) \<in> {(2, 2), (1, 2), (2, 1)} \<or> (d1 \<ge> 3 \<and> d2 \<in> {1, 2} \<and> \<not> transpose_a))"
    using assms(3,4) by (auto simp: max_def split: if_splits)
  have pure: "\<exists>c'. snd (matmul E' C' inp1' inp2' transpose_a transpose_b' compute_mode' format')
                      = [c'] \<and> path_of_call c' = Some ?p"
    if "ndim E' inp1' = Inr d1 \<and> ndim E' inp2' = Inr d2"
    for E' :: "('t, 'd) engine" and C' inp1' inp2' transpose_b' compute_mode' format'
    using matmul_single_call [of E' inp1' d1 inp2' d2] that assms(3,4) by blast
  have iffs: "(?p = DotPath \<longleftrightarrow> d1 = 1 \<and> d2 = 1) \<and>
           (?p = PlainPath \<longleftrightarrow>
              \<not> (d1 = 1 \<and> d2 = 1) \<and> (max d1 d2 \<le> 2 \<or> (d2 \<le> 2 \<and> \<not> transpose_a))) \<and>
           (?p = BatchedPath \<longleftrightarrow>
              \<not> (d1 = 1 \<and> d2 = 1) \<and> \<not> (max d1 d2 \<le> 2 \<or> (d2 \<le> 2 \<and> \<not> transpose_a)))"
    by simp
  show ?thesis
    apply (rule exI [of _ c])
    apply (rule exI [of _ ?p])
    using c table pure iffs by blast
qed

theorem matmul_dispatch_path_witness:
  "ndim demo_engine (DemoTensor ''float32'' (Some [2, 3, 4])) = Inr 3 \<and>
   ndim demo_engine (DemoTensor ''float32'' (Some [4, 5])) = Inr 2 \<and>
   (1::nat) \<le> 3 \<and> (1::nat) \<le> 2 \<and>
   (\<exists>c. snd (matmul demo_engine demo_config (DemoTensor ''float32'' (Some [2, 3, 4]))
              (DemoTensor ''float32'' (Some [4, 5])) True False ''default'' ''default'') = [c] \<and>
        path_of_call c = Some BatchedPath)"
proof -
  have h1: "ndim demo_engine (DemoTensor ''float32'' (Some [2, 3, 4])) = Inr 3"
    and h2: "ndim demo_engine (DemoTensor ''float32'' (Some [4, 5])) = Inr 2"
    by (simp_all add: ndim_def demo_engine_def)
  have p1: "(1::nat) \<le> 3" and p2: "(1::nat) \<le> 2"
    by simp_all
  note th = matmul_dispatch_path [OF h1 h2 p1 p2, of demo_config True False "''default''" "''default''"]
  show ?thesis
    using th h1 h2 by (elim exE conjE) simp
qed

subsection \<open>Comparisons\<close>

text \<open>
  Claim C7. For all tensors \<open>a\<close> and \<open>b\<close>, \<open>a > b\<close> gives the same result as \<open>b < a\<close>
  and \<open>a >= b\<close> the same as \<open>b <= a\<close>: the same outcome (tensor or error) through the same
  calls, the greater-than forms being the less-than primitive with the operands swapped,
  cast to boolean.
\<close>

theorem gt_ge_swap_operands:
  "dunder_gt E a b = dunder_lt E b a \<and>
   dunder_ge E a b = dunder_le E b a \<and>
   snd (dunder_gt E a b) =
     Apply (Elemwise ElwMod_LT) [b, a] #
       (case unpack1 (py_apply E (Elemwise ElwMod_LT) [b, a]) of
          Inl e \<Rightarrow> [] | Inr t \<Rightarrow> [AstypeCpp t ''bool'']) \<and>
   snd (dunder_ge E a b) =
     Apply (Elemwise ElwMod_LEQ) [b, a] #
       (case unpack1 (py_apply E (Elemwise ElwMod_LEQ) [b, a]) of
          Inl e \<Rightarrow> [] | Inr t \<Rightarrow> [AstypeCpp t ''bool''])"
  by (simp add: dunder_gt_def dunder_lt_def dunder_ge_def dunder_le_def
      then_astype_def elwise_def elwise_apply_def split: sum.splits)

subsection \<open>Logical operators\<close>

text \<open>
  Claim C8. Each of \<open>&\<close>, \<open>|\<close>, \<open>^\<close> and its reflected form fails with a
  \<^verbatim>\<open>TypeError\<close> whose message names the operator's mode, without calling any
  primitive, as soon as one operand's dtype is not boolean; with two boolean operands it
  makes exactly one call, the elementwise primitive of that mode (operands swapped in the
  reflected form). Bitwise-not fails in the same way on a receiver that is not boolean,
  and is one elementwise \<open>NOT\<close> otherwise.
\<close>

theorem logical_ops_bool_only:
  assumes "(f, mode, rv) \<in> set [(dunder_and, ElwMod_AND, False), (dunder_or, ElwMod_OR, False),
             (dunder_xor, ElwMod_XOR, False), (dunder_rand, ElwMod_AND, True),
             (dunder_ror, ElwMod_OR, True), (dunder_rxor, ElwMod_XOR, True)]"
  shows "(tensor_dtype E a \<noteq> np_bool E \<or> tensor_dtype E b \<noteq> np_bool E \<longrightarrow>
            f E a b = (Inl (TypeError (Format ''{} requires 2 bool tensors'' [ArgMode mode])), [])) \<and>
         (tensor_dtype E a = np_bool E \<and> tensor_dtype E b = np_bool E \<longrightarrow>
            f E a b =
              (unpack1 (py_apply E (Elemwise mode) (if rv then [b, a] else [a, b])),
               [Apply (Elemwise mode) (if rv then [b, a] else [a, b])])) \<and>
         (tensor_dtype E a \<noteq> np_bool E \<longrightarrow>
            dunder_invert E a =
              (Inl (TypeError (Format ''{} requires a bool tensor'' [ArgMode ElwMod_NOT])), [])) \<and>
         (tensor_dtype E a = np_bool E \<longrightarrow>
            dunder_invert E a =
              (unpack1 (py_apply E (Elemwise ElwMod_NOT) [a]), [Apply (Elemwise ElwMod_NOT) [a]]))"
proof -
  have f_eq: "f E a b = logical_binary_elwise E mode rv a b"
    using assms
    by (auto simp: dunder_and_def dunder_or_def dunder_xor_def dunder_rand_def
        dunder_ror_def dunder_rxor_def)
  show ?thesis
    unfolding f_eq
    by (simp add: logical_binary_elwise_def dunder_invert_def logical_unary_elwise_def
        elwise_def elwise_apply_def Let_def)
qed

theorem logical_ops_bool_only_witness:
  "(dunder_rxor, ElwMod_XOR, True) \<in> set [(dunder_and, ElwMod_AND, False), (dunder_or, ElwMod_OR, False),
             (dunder_xor, ElwMod_XOR, False), (dunder_rand, ElwMod_AND, True),
             (dunder_ror, ElwMod_OR, True), (dunder_rxor, ElwMod_XOR, True)] \<and>
   tensor_dtype demo_engine (DemoTensor ''int32'' (Some [2])) \<noteq> np_bool demo_engine \<and>
   tensor_dtype demo_engine (DemoTensor ''bool'' (Some [2])) = np_bool demo_engine \<and>
   dunder_rxor demo_engine (DemoTensor ''bool'' (Some [2])) (DemoTensor ''int32'' (Some [2])) =
     (Inl (TypeError (Format ''{} requires 2 bool tensors'' [ArgMode ElwMod_XOR])), []) \<and>
   dunder_rxor demo_engine (DemoTensor ''bool'' (Some [2])) (DemoTensor ''bool'' (Some [3])) =
     (Inr (DemoTensor ''bool'' (Some [3])),
      [Apply (Elemwise ElwMod_XOR) [DemoTensor ''bool'' (Some [3]), DemoTensor ''bool'' (Some [2])]]) \<and>
   dunder_invert demo_engine (DemoTensor ''int32'' (Some [2])) =
     (Inl (TypeError (Format ''{} requires a bool tensor'' [ArgMode ElwMod_NOT])), [])"
  using logical_ops_bool_only [of dunder_rxor ElwMod_XOR True demo_engine
      "DemoTensor ''bool'' (Some [2])" "DemoTensor ''int32'' (Some [2])"]
    logical_ops_bool_only [of dunder_rxor ElwMod_XOR True demo_engine
      "DemoTensor ''bool'' (Some [2])" "DemoTensor ''bool'' (Some [3])"]
    logical_ops_bool_only [of dunder_rxor ElwMod_XOR True demo_engine
      "DemoTensor ''int32'' (Some [2])" "DemoTensor ''int32'' (Some [2])"]
  by (simp add: demo_engine_def unpack1_def)

subsection \<open>Reductions\<close>

lemma normalize_axis_descending: "sorted (rev (normalize_axis n axs True))"
  by (simp add: normalize_axis_def)

lemma normalize_axis_mset:
  "mset (normalize_axis n axs rv) = mset (map (\<lambda>x. if x < 0 then int n + x else x) axs)"
  by (simp add: normalize_axis_def Let_def)

lemma normalize_axis_empty: "normalize_axis n [] rv = []"
  by (simp add: normalize_axis_def)

lemma reduce_loop_length: "length (snd (reduce_loop E mode k axs d)) \<le> length axs"
  by (induction axs arbitrary: d) (auto simp: Let_def split: sum.splits)

lemma reduce_loop_ops:
  "map call_builtin (snd (reduce_loop E mode k axs d)) =
     take (length (snd (reduce_loop E mode k axs d)))
       (map (\<lambda>a. Some (Reduce mode (Some a) (Some k))) axs)"
  by (induction axs arbitrary: d) (auto simp: Let_def split: sum.splits)

lemma reduce_loop_chained: "chained E d (snd (reduce_loop E mode k axs d))"
proof (induction axs arbitrary: d)
  case Nil
  then show ?case by simp
next
  case (Cons a axs)
  show ?case
  proof (cases "unpack1 (py_apply E (Reduce mode (Some a) (Some k)) [d])")
    case (Inl e)
    then show ?thesis by (simp add: Let_def)
  next
    case (Inr d')
    then show ?thesis using Cons.IH [of d'] by (simp add: Let_def)
  qed
qed

lemma reduce_loop_success:
  "fst (reduce_loop E mode k axs d) = Inr t \<Longrightarrow>
   length (snd (reduce_loop E mode k axs d)) = length axs"
  by (induction axs arbitrary: d) (auto simp: Let_def split: sum.splits)

lemma reduce_loop_total:
  "\<forall>op x. \<exists>t. py_apply E op [x] = Inr [t] \<Longrightarrow> \<exists>t. fst (reduce_loop E mode k axs d) = Inr t"
proof (induction axs arbitrary: d)
  case Nil
  then show ?case by simp
next
  case (Cons a axs)
  from Cons.prems obtain d' where "py_apply E (Reduce mode (Some a) (Some k)) [d] = Inr [d']"
    by blast
  then have "unpack1 (py_apply E (Reduce mode (Some a) (Some k)) [d]) = Inr d'"
    by (simp add: unpack1_def)
  then show ?case using Cons.IH [OF Cons.prems, of d'] by (simp add: Let_def)
qed

lemma reduce_iterable:
  "tuple_shape E self = Some shp \<Longrightarrow>
   reduce E mode self (AxisIterable axs) k =
     reduce_loop E mode k (normalize_axis (length shp) axs True) self"
  by (simp add: reduce_def ndim_def)

text \<open>
  Claim C6. For each of \<open>sum\<close>, \<open>prod\<close>, \<open>min\<close>, \<open>max\<close>, \<open>mean\<close>:
  \<^item> \<open>axis=None\<close> with \<open>keepdims=True\<close> fails (the assertion), and no primitive is called;
  \<^item> \<open>axis=None\<close> with \<open>keepdims=False\<close> is one call of the reduction primitive, with no
    axis, on the tensor itself;
  \<^item> a single axis, negative or not, is one call of the reduction primitive with that
    axis unchanged;
  \<^item> an iterable of axes, on a tensor of known rank, is first normalized against the
    rank (the same axes, negative ones counted from the end) into descending order;
    then the calls made are single-axis reductions over these axes in that order, one
    per axis, each on the result of the one before, starting from the tensor itself; an
    error ends the sequence early, and when every primitive call returns one tensor the
    reduction returns and has made one call per axis. Descending order means that every
    axis still to come is at most the axis just reduced, so removing that axis does not
    move it.
\<close>

theorem reduce_dispatch:
  assumes "(f, mode) \<in> set [(sum_method, ''sum''), (prod_method, ''product''),
             (min_method, ''min''), (max_method, ''max''), (mean_method, ''mean'')]"
  shows "f E self AxisNone True =
           (Inl (AssertionError (Literal ''can not set axis=None and keepdims=True'')), []) \<and>
         f E self AxisNone False =
           (unpack1 (py_apply E (Reduce mode None None) [self]),
            [Apply (Reduce mode None None) [self]]) \<and>
         f E self (AxisInt a) keepdims =
           (unpack1 (py_apply E (Reduce mode (Some a) (Some keepdims)) [self]),
            [Apply (Reduce mode (Some a) (Some keepdims)) [self]]) \<and>
         (tuple_shape E self = Some shp \<longrightarrow>
            (let axs' = normalize_axis (length shp) axs True;
                 r = f E self (AxisIterable axs) keepdims
             in mset axs' = mset (map (\<lambda>x. if x < 0 then int (length shp) + x else x) axs) \<and>
                sorted (rev axs') \<and>
                length (snd r) \<le> length axs' \<and>
                map call_builtin (snd r) =
                  take (length (snd r))
                    (map (\<lambda>ai. Some (Reduce mode (Some ai) (Some keepdims))) axs') \<and>
                chained E self (snd r) \<and>
                ((\<exists>t. fst r = Inr t) \<longrightarrow> length (snd r) = length axs') \<and>
                ((\<forall>op x. \<exists>t. py_apply E op [x] = Inr [t]) \<longrightarrow> (\<exists>t. fst r = Inr t))))"
proof -
  have f: "f = reduce' mode" if "reduce' = (\<lambda>m E s ax k. reduce E m s ax k)" for reduce'
    using assms that
    by (auto simp: sum_method_def prod_method_def min_method_def max_method_def
        mean_method_def fun_eq_iff)
  then have f_eq: "\<And>E s ax k. f E s ax k = reduce E mode s ax k" by simp
  have 1: "f E self AxisNone True =
           (Inl (AssertionError (Literal ''can not set axis=None and keepdims=True'')), [])"
    by (simp add: f_eq reduce_def)
  have 2: "f E self AxisNone False =
           (unpack1 (py_apply E (Reduce mode None None) [self]),
            [Apply (Reduce mode None None) [self]])"
    by (simp add: f_eq reduce_def)
  have 3: "f E self (AxisInt a) keepdims =
           (unpack1 (py_apply E (Reduce mode (Some a) (Some keepdims)) [self]),
            [Apply (Reduce mode (Some a) (Some keepdims)) [self]])"
    by (simp add: f_eq reduce_def Let_def)
  have 4: "(let axs' = normalize_axis (length shp) axs True;
                 r = f E self (AxisIterable axs) keepdims
             in mset axs' = mset (map (\<lambda>x. if x < 0 then int (length shp) + x else x) axs) \<and>
                sorted (rev axs') \<and>
                length (snd r) \<le> length axs' \<and>
                map call_builtin (snd r) =
                  take (length (snd r))
                    (map (\<lambda>ai. Some (Reduce mode (Some ai) (Some keepdims))) axs') \<and>
                chained E self (snd r) \<and>
                ((\<exists>t. fst r = Inr t) \<longrightarrow> length (snd r) = length axs') \<and>
                ((\<forall>op x. \<exists>t. py_apply E op [x] = Inr [t]) \<longrightarrow> (\<exists>t. fst r = Inr t)))"
    if "tuple_shape E self = Some shp"
    unfolding Let_def f_eq reduce_iterable [OF that]
  proof (intro conjI impI)
    show "mset (normalize_axis (length shp) axs True) =
          mset (map (\<lambda>x. if x < 0 then int (length shp) + x else x) axs)"
      by (rule normalize_axis_mset)
    show "sorted (rev (normalize_axis (length shp) axs True))"
      by (rule normalize_axis_descending)
  qed (auto simp: reduce_loop_length reduce_loop_chained reduce_loop_success
         intro: reduce_loop_ops reduce_loop_total)
  from 1 2 3 4 show ?thesis by blast
qed

theorem reduce_dispatch_witness:
  "(sum_method, ''sum'') \<in> set [(sum_method, ''sum''), (prod_method, ''product''),
      (min_method, ''min''), (max_method, ''max''), (mean_method, ''mean'')] \<and>
   tuple_shape demo_engine (DemoTensor ''float32'' (Some [2, 3, 4])) = Some [2, 3, 4] \<and>
   normalize_axis 3 [0, -1] True = [2, 0] \<and>
   sum_method demo_engine (DemoTensor ''float32'' (Some [2, 3, 4])) (AxisIterable [0, -1]) False =
     (Inr (DemoTensor ''float32'' (Some [3])),
      [Apply (Reduce ''sum'' (Some 2) (Some False)) [DemoTensor ''float32'' (Some [2, 3, 4])],
       Apply (Reduce ''sum'' (Some 0) (Some False)) [DemoTensor ''float32'' (Some [2, 3])]]) \<and>
   sum_method demo_engine (DemoTensor ''float32'' (Some [2, 3, 4])) AxisNone True =
     (Inl (AssertionError (Literal ''can not set axis=None and keepdims=True'')), []) \<and>
   snd (sum_method demo_engine (DemoTensor ''float32'' (Some [2, 3, 4])) (AxisInt (-1)) False) =
     [Apply (Reduce ''sum'' (Some (-1)) (Some False)) [DemoTensor ''float32'' (Some [2, 3, 4])]]"
  using reduce_dispatch [of sum_method "''sum''" demo_engine
      "DemoTensor ''float32'' (Some [2, 3, 4])" "-1" False "[2, 3, 4]" "[0, -1]"]
  by (simp add: demo_engine_def sum_method_def reduce_def ndim_def normalize_axis_def
      unpack1_def Let_def)

text \<open>
  Claim C10 fails as stated for a tensor whose shape is not known: the rank is read
  before the axes are looked at, and reading it raises \<^verbatim>\<open>ValueError("unkown ndim")\<close>.
\<close>

theorem reduce_empty_axes_unknown_shape_counterexample:
  "sum_method demo_engine (DemoTensor ''float32'' None) (AxisIterable []) False =
     (Inl (ValueError (Literal ''unkown ndim'')), []) \<and>
   sum_method demo_engine (DemoTensor ''float32'' None) (AxisIterable []) False \<noteq>
     (Inr (DemoTensor ''float32'' None), [])"
  by (simp add: sum_method_def reduce_def ndim_def demo_engine_def)

text \<open>
  Claim C10, amended. For every tensor whose shape is known and each of \<open>sum\<close>,
  \<open>prod\<close>, \<open>min\<close>, \<open>max\<close>, \<open>mean\<close>, a call with an empty iterable of axes returns the
  input tensor itself and calls no primitive, whatever \<open>keepdims\<close> is.
\<close>

theorem reduce_empty_axes_identity:
  assumes "f \<in> set [sum_method, prod_method, min_method, max_method, mean_method]"
    and "tuple_shape E self \<noteq> None"
  shows "f E self (AxisIterable []) keepdims = (Inr self, [])"
proof -
  from assms(2) obtain shp where shp: "tuple_shape E self = Some shp" by blast
  have "reduce E mode self (AxisIterable []) keepdims = (Inr self, [])" for mode
    by (simp add: reduce_iterable [OF shp] normalize_axis_empty)
  then show ?thesis
    using assms(1)
    by (auto simp: sum_method_def prod_method_def min_method_def max_method_def mean_method_def)
qed

theorem reduce_empty_axes_identity_witness:
  "mean_method \<in> set [sum_method, prod_method, min_method, max_method, mean_method] \<and>
   tuple_shape demo_engine (DemoTensor ''float32'' (Some [2, 3])) \<noteq> None \<and>
   mean_method demo_engine (DemoTensor ''float32'' (Some [2, 3])) (AxisIterable []) True =
     (Inr (DemoTensor ''float32'' (Some [2, 3])), [])"
  using reduce_empty_axes_identity [of mean_method demo_engine
      "DemoTensor ''float32'' (Some [2, 3])" True]
  by (simp add: demo_engine_def)

section \<open>Properties of the quantized dtypes\<close>

subsection \<open>The catalog\<close>

lemma builtin_quant_dtypes_built:
  "list_all (\<lambda>(key, m).
      key = name m \<and>
      QuantDtypeMeta_new (name m) (cname m) (np_dtype_str m) (qmin m) (qmax m) None = Inr m)
     builtin_quant_dtypes"
  by (simp add: builtin_quant_dtypes_def QuantDtypeMeta_new_def)

lemma builtin_ranges_fit_storage:
  "list_all (\<lambda>(key, m).
      case map_of integer_storage (np_dtype_str m) of
        None \<Rightarrow> False
      | Some (signed, bits, reg) \<Rightarrow>
          (if signed then - (2 ^ (bits - 1)) \<le> qmin m \<and> qmax m < 2 ^ (bits - 1)
           else 0 \<le> qmin m \<and> qmax m < 2 ^ bits))
     builtin_quant_dtypes"
  by (simp add: builtin_quant_dtypes_def integer_storage_def)

subsection \<open>Creating quantized dtypes\<close>

lemma trunc_of_int: "trunc (of_int k) = k"
  by (simp add: trunc_def)

lemma trunc_integral: "of_int (trunc z) = z \<longleftrightarrow> z \<in> \<int>"
proof
  assume "of_int (trunc z) = z"
  then have "z = of_int (trunc z)" by simp
  then show "z \<in> \<int>" by (metis Ints_of_int)
next
  assume "z \<in> \<int>"
  then obtain k where "z = of_int k" by (auto elim: Ints_cases)
  then show "of_int (trunc z) = z" by (simp add: trunc_of_int)
qed

lemma create_unsigned_no_zero_point:
  "cname m = Some cn \<Longrightarrow> is_unsigned m \<Longrightarrow>
   create_quantized_dtype m scale None =
     Inl (ValueError (Literal ''zero_point should be an integer''))"
  by (simp add: create_quantized_dtype_def)

lemma create_unsigned_fractional:
  "cname m = Some cn \<Longrightarrow> is_unsigned m \<Longrightarrow> z \<notin> \<int> \<Longrightarrow>
   create_quantized_dtype m scale (Some z) =
     Inl (ValueError (Literal ''zero_point should be an integer''))"
  by (simp add: create_quantized_dtype_def trunc_integral)

lemma create_unsigned_out_of_range:
  "cname m = Some cn \<Longrightarrow> is_unsigned m \<Longrightarrow> k < qmin m \<or> qmax m < k \<Longrightarrow>
   create_quantized_dtype m scale (Some (of_int k)) =
     Inl (ValueError (Format ''zero_point should be within [{}, {}] for {}''
                        [ArgInt (qmin m), ArgInt (qmax m), ArgStr (name m)]))"
  by (auto simp add: create_quantized_dtype_def trunc_of_int check_zero_point_def Let_def)

lemma create_unsigned_ok:
  "cname m = Some cn \<Longrightarrow> is_unsigned m \<Longrightarrow> qmin m \<le> k \<Longrightarrow> k \<le> qmax m \<Longrightarrow>
   create_quantized_dtype m scale (Some (of_int k)) =
     Inr \<lparr>dtype_str = np_dtype_str m,
          metadata = Some \<lparr>mgb_name = cn, mgb_scale = scale, mgb_zero_point = Some k\<rparr>\<rparr>"
  by (simp add: create_quantized_dtype_def trunc_of_int check_zero_point_def Let_def)

text \<open>
  Claim C4. \<^verbatim>\<open>create_quantized_dtype\<close> fails for every descriptor without an
  external-format name (\<open>cname = None\<close>; in the catalog these are \<open>quint2\<close> and \<open>qint2\<close>).
  For an unsigned descriptor that has one, it fails iff the zero-point is \<open>None\<close>, is not
  integral, or lies outside \<open>[qmin, qmax]\<close>: with "zero_point should be an integer" in
  the first two cases and with the range error in the third; otherwise it returns the
  storage dtype stamped with name, scale and zero-point. For \<open>quint8\<close> the zero-point
  \<open>-1\<close> gives the range error.
\<close>

theorem create_quantized_dtype_rejects:
  "(cname m = None \<longrightarrow>
      create_quantized_dtype m scale zp =
        Inl (ValueError (Literal ''dtype {} without cname attr is not supported.''))) \<and>
   (\<forall>key \<in> {''quint2'', ''qint2''}. \<exists>d. builtin_quant_dtype key = Inr d \<and> cname d = None) \<and>
   (cname m = Some cn \<and> is_unsigned m \<longrightarrow>
      ((\<exists>e. create_quantized_dtype m scale zp = Inl e) \<longleftrightarrow>
         (zp = None \<or>
          (\<exists>z. zp = Some z \<and> (z \<notin> \<int> \<or> z < of_int (qmin m) \<or> of_int (qmax m) < z)))) \<and>
      (zp = None \<or> (\<exists>z. zp = Some z \<and> z \<notin> \<int>) \<longrightarrow>
         create_quantized_dtype m scale zp =
           Inl (ValueError (Literal ''zero_point should be an integer''))) \<and>
      (\<forall>k. zp = Some (of_int k) \<and> (k < qmin m \<or> qmax m < k) \<longrightarrow>
         create_quantized_dtype m scale zp =
           Inl (ValueError (Format ''zero_point should be within [{}, {}] for {}''
                              [ArgInt (qmin m), ArgInt (qmax m), ArgStr (name m)]))) \<and>
      (\<forall>k. zp = Some (of_int k) \<and> qmin m \<le> k \<and> k \<le> qmax m \<longrightarrow>
         create_quantized_dtype m scale zp =
           Inr \<lparr>dtype_str = np_dtype_str m,
                metadata = Some \<lparr>mgb_name = cn, mgb_scale = scale,
                                  mgb_zero_point = Some k\<rparr>\<rparr>)) \<and>
   quint8 scale (Some (- 1)) =
     Inl (ValueError (Format ''zero_point should be within [{}, {}] for {}''
                        [ArgInt 0, ArgInt 255, ArgStr ''quint8'']))"
proof (intro conjI impI)
  assume "cname m = None"
  then show "create_quantized_dtype m scale zp =
        Inl (ValueError (Literal ''dtype {} without cname attr is not supported.''))"
    by (simp add: create_quantized_dtype_def)
next
  show "\<forall>key \<in> {''quint2'', ''qint2''}. \<exists>d. builtin_quant_dtype key = Inr d \<and> cname d = None"
    by (simp add: builtin_quant_dtype_def builtin_quant_dtypes_def)
next
  show "quint8 scale (Some (- 1)) =
     Inl (ValueError (Format ''zero_point should be within [{}, {}] for {}''
                        [ArgInt 0, ArgInt 255, ArgStr ''quint8'']))"
    by (simp add: quint8_def with_builtin_def builtin_quant_dtype_def builtin_quant_dtypes_def
        create_quantized_dtype_def trunc_def check_zero_point_def)
next
  assume u: "cname m = Some cn \<and> is_unsigned m"
  show "(\<exists>e. create_quantized_dtype m scale zp = Inl e) \<longleftrightarrow>
         (zp = None \<or>
          (\<exists>z. zp = Some z \<and> (z \<notin> \<int> \<or> z < of_int (qmin m) \<or> of_int (qmax m) < z)))"
  proof (cases zp)
    case None
    then show ?thesis using u by (simp add: create_unsigned_no_zero_point)
  next
    case (Some z)
    show ?thesis
    proof (cases "z \<in> \<int>")
      case False
      then show ?thesis using u Some by (simp add: create_unsigned_fractional)
    next
      case True
      then obtain k where k: "z = of_int k" by (auto elim: Ints_cases)
      show ?thesis
      proof (cases "k < qmin m \<or> qmax m < k")
        case True
        then show ?thesis using u Some k create_unsigned_out_of_range [of m cn k scale]
          by auto
      next
        case False
        then show ?thesis using u Some k create_unsigned_ok [of m cn k scale]
          by auto
      qed
    qed
  qed
next
  assume u: "cname m = Some cn \<and> is_unsigned m"
    and "zp = None \<or> (\<exists>z. zp = Some z \<and> z \<notin> \<int>)"
  then show "create_quantized_dtype m scale zp =
           Inl (ValueError (Literal ''zero_point should be an integer''))"
    by (auto simp: create_unsigned_no_zero_point create_unsigned_fractional)
next
  assume u: "cname m = Some cn \<and> is_unsigned m"
  then show "\<forall>k. zp = Some (of_int k) \<and> (k < qmin m \<or> qmax m < k) \<longrightarrow>
         create_quantized_dtype m scale zp =
           Inl (ValueError (Format ''zero_point should be within [{}, {}] for {}''
                              [ArgInt (qmin m), ArgInt (qmax m), ArgStr (name m)]))"
    using create_unsigned_out_of_range [of m cn _ scale] by blast
next
  assume u: "cname m = Some cn \<and> is_unsigned m"
  then show "\<forall>k. zp = Some (of_int k) \<and> qmin m \<le> k \<and> k \<le> qmax m \<longrightarrow>
         create_quantized_dtype m scale zp =
           Inr \<lparr>dtype_str = np_dtype_str m,
                metadata = Some \<lparr>mgb_name = cn, mgb_scale = scale,
                                  mgb_zero_point = Some k\<rparr>\<rparr>"
    using create_unsigned_ok [of m cn _ scale] by blast
qed

theorem create_quantized_dtype_rejects_witness:
  "cname \<lparr>name = ''quint8'', cname = Some ''Quantized8Asymm'', np_dtype_str = ''uint8'',
          qmin = 0, qmax = 255, is_unsigned = True\<rparr> = Some ''Quantized8Asymm'' \<and>
   is_unsigned \<lparr>name = ''quint8'', cname = Some ''Quantized8Asymm'', np_dtype_str = ''uint8'',
          qmin = 0, qmax = 255, is_unsigned = True\<rparr> \<and>
   ''quint2'' \<in> {''quint2'', ''qint2''} \<and>
   (\<exists>d. builtin_quant_dtype ''quint2'' = Inr d \<and> cname d = None) \<and>
   create_quantized_dtype \<lparr>name = ''quint8'', cname = Some ''Quantized8Asymm'',
          np_dtype_str = ''uint8'', qmin = 0, qmax = 255, is_unsigned = True\<rparr> (1 / 10) (Some 128) =
     Inr \<lparr>dtype_str = ''uint8'',
          metadata = Some \<lparr>mgb_name = ''Quantized8Asymm'', mgb_scale = 1 / 10,
                            mgb_zero_point = Some 128\<rparr>\<rparr> \<and>
   create_quantized_dtype \<lparr>name = ''quint8'', cname = Some ''Quantized8Asymm'',
          np_dtype_str = ''uint8'', qmin = 0, qmax = 255, is_unsigned = True\<rparr> (1 / 10) (Some 256) =
     Inl (ValueError (Format ''zero_point should be within [{}, {}] for {}''
                        [ArgInt 0, ArgInt 255, ArgStr ''quint8'']))"
  using create_quantized_dtype_rejects [of
      "\<lparr>name = ''quint8'', cname = Some ''Quantized8Asymm'', np_dtype_str = ''uint8'',
        qmin = 0, qmax = 255, is_unsigned = True\<rparr>" "1 / 10" "Some 128" "''Quantized8Asymm''"]
    create_quantized_dtype_rejects [of
      "\<lparr>name = ''quint8'', cname = Some ''Quantized8Asymm'', np_dtype_str = ''uint8'',
        qmin = 0, qmax = 255, is_unsigned = True\<rparr>" "1 / 10" "Some 256" "''Quantized8Asymm''"]
  by (simp add: create_quantized_dtype_def trunc_def check_zero_point_def
      builtin_quant_dtype_def builtin_quant_dtypes_def)

text \<open>
  Claim C3 fails as stated: the signed branch never looks at the zero-point. For the
  catalog's \<open>qint8\<close> a zero-point of 5 is accepted, and the dtype returned carries no
  zero-point.
\<close>

theorem signed_zero_point_accepted_counterexample:
  "builtin_quant_dtype ''qint8'' =
     Inr \<lparr>name = ''qint8'', cname = Some ''QuantizedS8'', np_dtype_str = ''int8'',
          qmin = - 128, qmax = 127, is_unsigned = False\<rparr> \<and>
   create_quantized_dtype
     \<lparr>name = ''qint8'', cname = Some ''QuantizedS8'', np_dtype_str = ''int8'',
      qmin = - 128, qmax = 127, is_unsigned = False\<rparr> 1 (Some 5) =
     Inr \<lparr>dtype_str = ''int8'',
          metadata = Some \<lparr>mgb_name = ''QuantizedS8'', mgb_scale = 1, mgb_zero_point = None\<rparr>\<rparr>"
  by (simp add: builtin_quant_dtype_def builtin_quant_dtypes_def create_quantized_dtype_def)

text \<open>
  Claim C3, amended. For every signed descriptor that has an external-format name,
  \<^verbatim>\<open>create_quantized_dtype\<close> succeeds whatever the zero-point argument is (\<open>None\<close> or
  not): the argument is ignored, and the dtype returned is stamped with name and scale
  only.
\<close>

theorem signed_zero_point_ignored:
  assumes "\<not> is_unsigned m" and "cname m = Some cn"
  shows "create_quantized_dtype m scale zp =
           Inr \<lparr>dtype_str = np_dtype_str m,
                metadata = Some \<lparr>mgb_name = cn, mgb_scale = scale, mgb_zero_point = None\<rparr>\<rparr>"
  using assms by (simp add: create_quantized_dtype_def)

theorem signed_zero_point_ignored_witness:
  "\<not> is_unsigned \<lparr>name = ''qint32'', cname = Some ''QuantizedS32'', np_dtype_str = ''int32'',
       qmin = - (2 ^ 31), qmax = 2 ^ 31 - 1, is_unsigned = False\<rparr> \<and>
   cname \<lparr>name = ''qint32'', cname = Some ''QuantizedS32'', np_dtype_str = ''int32'',
       qmin = - (2 ^ 31), qmax = 2 ^ 31 - 1, is_unsigned = False\<rparr> = Some ''QuantizedS32'' \<and>
   create_quantized_dtype \<lparr>name = ''qint32'', cname = Some ''QuantizedS32'',
       np_dtype_str = ''int32'', qmin = - (2 ^ 31), qmax = 2 ^ 31 - 1, is_unsigned = False\<rparr>
       (1 / 2) (Some (7 / 2)) =
     Inr \<lparr>dtype_str = ''int32'',
          metadata = Some \<lparr>mgb_name = ''QuantizedS32'', mgb_scale = 1 / 2,
                            mgb_zero_point = None\<rparr>\<rparr>"
  using signed_zero_point_ignored [of
      "\<lparr>name = ''qint32'', cname = Some ''QuantizedS32'', np_dtype_str = ''int32'',
        qmin = - (2 ^ 31), qmax = 2 ^ 31 - 1, is_unsigned = False\<rparr>" "''QuantizedS32''"
      "1 / 2" "Some (7 / 2)"]
  by simp

subsection \<open>Floating-point rounding\<close>

lemma find_exponent_ge: "e \<le> find_exponent n e y"
proof (induction n arbitrary: e)
  case 0
  then show ?case by simp
next
  case (Suc n)
  show ?case using Suc [of "e + 1"] by simp
qed

lemma find_exponent_le: "y < 2 powi (E + 1) \<Longrightarrow> e \<le> E \<Longrightarrow> find_exponent n e y \<le> E"
proof (induction n arbitrary: e)
  case 0
  then show ?case by simp
next
  case (Suc n)
  show ?case
  proof (cases "y < 2 powi (e + 1)")
    case True
    then show ?thesis using Suc.prems by simp
  next
    case False
    then have "(2::real) powi (e + 1) < 2 powi (E + 1)"
      using Suc.prems(1) by linarith
    then have "e + 1 < E + 1"
      by (metis linorder_not_less one_less_numeral_iff power_int_strict_increasing
          semiring_norm(76) order_less_le order_less_asym)
    then show ?thesis using False Suc.IH [of "e + 1"] Suc.prems(1) by simp
  qed
qed

lemma find_exponent_lower:
  "2 powi e \<le> y \<Longrightarrow> e0 \<le> e \<Longrightarrow> e \<le> e0 + int n \<Longrightarrow> e \<le> find_exponent n e0 y"
proof (induction n arbitrary: e0)
  case 0
  then show ?case by simp
next
  case (Suc n)
  show ?case
  proof (cases "e0 = e")
    case True
    then show ?thesis using find_exponent_ge [of e0 "Suc n" y] by simp
  next
    case False
    then have lt: "e0 + 1 \<le> e" using Suc.prems by simp
    have "(2::real) powi (e0 + 1) \<le> 2 powi e"
      using lt by (simp add: power_int_increasing)
    then have "\<not> y < 2 powi (e0 + 1)" using Suc.prems(1) by linarith
    then show ?thesis using Suc.IH [of "e0 + 1"] Suc.prems lt by simp
  qed
qed

lemma exponent_ge_emin: "emin F \<le> exponent F y"
  by (simp add: exponent_def find_exponent_ge)

lemma exponent_le: "y < 2 powi (E + 1) \<Longrightarrow> emin F \<le> E \<Longrightarrow> exponent F y \<le> E"
  by (simp add: exponent_def find_exponent_le)

lemma emin_le_emax: "emin F \<le> emax F"
  by (cases F) simp_all

lemma exponent_eq:
  assumes "emin F \<le> e" and "e \<le> emax F" and "2 powi e \<le> y \<or> e = emin F"
    and "y < 2 powi (e + 1)"
  shows "exponent F y = e"
proof -
  have up: "exponent F y \<le> e" using assms(1,4) by (rule exponent_le [rotated])
  have "e \<le> exponent F y"
  proof (cases "e = emin F")
    case True
    then show ?thesis by (simp add: exponent_ge_emin)
  next
    case False
    with assms(3) have "2 powi e \<le> y" by simp
    then show ?thesis
      unfolding exponent_def using assms(1,2) emin_le_emax [of F]
      by (intro find_exponent_lower) auto
  qed
  with up show ?thesis by simp
qed


lemma round_half_even_of_int: "round_half_even (of_int k) = of_int k"
  by (simp add: round_half_even_def Let_def)

lemma round_half_even_integral: "round_half_even x \<in> \<int>"
  by (simp add: round_half_even_def Let_def)

lemma round_half_even_error: "\<bar>round_half_even y - y\<bar> \<le> 1 / 2"
proof -
  have "of_int \<lfloor>y\<rfloor> \<le> y" and "y < of_int \<lfloor>y\<rfloor> + 1"
    by linarith+
  then show ?thesis
    by (auto simp: round_half_even_def Let_def abs_le_iff)
qed

lemma round_half_even_near: "\<bar>y - of_int k\<bar> < 1 / 2 \<Longrightarrow> round_half_even y = of_int k"
proof -
  assume a: "\<bar>y - of_int k\<bar> < 1 / 2"
  obtain j where j: "round_half_even y = of_int j"
    using round_half_even_integral [of y] by (auto elim: Ints_cases)
  have "\<bar>real_of_int j - of_int k\<bar> < 1"
    using round_half_even_error [of y] a j by linarith
  then have "\<bar>j - k\<bar> < 1"
    by (metis of_int_diff of_int_abs of_int_less_1_iff)
  then show ?thesis using j by simp
qed

lemma precision_pos: "1 \<le> precision F"
  by (cases F) simp_all

lemma precision_le_emax: "precision F \<le> emax F + 1"
  by (cases F) simp_all

text \<open>Rounding moves a value by at most half a unit in the last place of its binade.\<close>

lemma round_to_format_error:
  assumes "\<bar>x\<bar> < 2 powi (E + 1)" and "emin F \<le> E" and "E + 1 \<le> emax F"
  shows "\<exists>r. round_to_format F x = Fin r \<and> \<bar>r - x\<bar> \<le> 2 powi (E - precision F + 1) / 2"
proof (cases "x = 0")
  case True
  then show ?thesis by (simp add: round_to_format_def)
next
  case False
  let ?e = "exponent F \<bar>x\<bar>"
  let ?ulp = "(2::real) powi (?e - precision F + 1)"
  let ?r = "round_half_even (x / ?ulp) * ?ulp"
  have e: "?e \<le> E" using assms(1,2) by (rule exponent_le)
  have pos: "0 < ?ulp" by simp
  have ulp: "?ulp \<le> 2 powi (E - precision F + 1)"
    using e by (intro power_int_increasing) auto
  have "\<bar>round_half_even (x / ?ulp) - x / ?ulp\<bar> * ?ulp \<le> 1 / 2 * ?ulp"
    using round_half_even_error [of "x / ?ulp"] pos by (intro mult_right_mono) auto
  moreover have "\<bar>round_half_even (x / ?ulp) - x / ?ulp\<bar> * ?ulp =
      \<bar>(round_half_even (x / ?ulp) - x / ?ulp) * ?ulp\<bar>"
    using pos by (simp add: abs_mult)
  moreover have "(round_half_even (x / ?ulp) - x / ?ulp) * ?ulp = ?r - x"
    using pos by (simp add: field_simps)
  ultimately have err: "\<bar>?r - x\<bar> \<le> ?ulp / 2" by simp
  then have err': "\<bar>?r - x\<bar> \<le> 2 powi (E - precision F + 1) / 2"
    using ulp by linarith
  have "(2::real) powi (E - precision F + 1) \<le> 2 powi (E + 1)"
    using precision_pos [of F] by (intro power_int_increasing) auto
  then have "\<bar>?r\<bar> < 2 powi (E + 1) + 2 powi (E + 1)"
    using err' assms(1) by linarith
  also have "(2::real) powi (E + 1) + 2 powi (E + 1) = 2 powi (E + 2)"
    by (simp add: power_int_add)
  also have "\<dots> \<le> 2 powi (emax F + 1)"
    using assms(3) by (intro power_int_increasing) auto
  finally have "\<not> 2 powi (emax F + 1) \<le> \<bar>?r\<bar>" by simp
  then have "round_to_format F x = Fin ?r"
    using False by (simp add: round_to_format_def Let_def)
  with err' show ?thesis by blast
qed

text \<open>A value \<open>m * 2^j\<close> with fewer than \<open>precision\<close> bits in \<open>m\<close> is a number of the format.\<close>

lemma round_to_format_dyadic:
  assumes "\<bar>m\<bar> < 2 ^ nat (precision F)" and "emin F - precision F + 1 \<le> j"
    and "j + precision F \<le> emax F + 1"
  shows "round_to_format F (of_int m * 2 powi j) = Fin (of_int m * 2 powi j)"
proof (cases "m = 0")
  case True
  then show ?thesis by (simp add: round_to_format_def)
next
  case False
  let ?x = "real_of_int m * 2 powi j"
  let ?e = "exponent F \<bar>?x\<bar>"
  let ?ulp = "(2::real) powi (?e - precision F + 1)"
  have p: "0 \<le> precision F" using precision_pos [of F] by simp
  have m: "\<bar>real_of_int m\<bar> < 2 powi (precision F)"
  proof -
    have "real_of_int \<bar>m\<bar> < real_of_int (2 ^ nat (precision F))"
      using assms(1) by (simp only: of_int_less_iff)
    then show ?thesis using p by (simp add: power_int_def)
  qed
  have "\<bar>?x\<bar> = \<bar>real_of_int m\<bar> * 2 powi j" by (simp add: abs_mult)
  also have "\<dots> < 2 powi (precision F) * 2 powi j"
    using m by (intro mult_strict_right_mono) auto
  also have "\<dots> = 2 powi (precision F + j)" by (simp add: power_int_add)
  finally have x: "\<bar>?x\<bar> < 2 powi (precision F + j)" .
  have e: "?e - precision F + 1 \<le> j"
  proof (cases "emin F \<le> precision F + j - 1")
    case True
    have "?e \<le> precision F + j - 1"
      using x True by (intro exponent_le) auto
    then show ?thesis by simp
  next
    case False
    have "(2::real) powi (precision F + j) \<le> 2 powi (emin F + 1)"
      using False by (intro power_int_increasing) auto
    then have "\<bar>?x\<bar> < 2 powi (emin F + 1)" using x by linarith
    then have "?e \<le> emin F" by (intro exponent_le) auto
    then show ?thesis using assms(2) by simp
  qed
  define d where "d = nat (j - (?e - precision F + 1))"
  define ulp where "ulp = ?ulp"
  have j: "j = (?e - precision F + 1) + int d" using e by (simp add: d_def)
  have ulp_pos: "0 < ulp" by (simp add: ulp_def)
  have pj: "(2::real) powi j = ulp * 2 ^ d"
    unfolding ulp_def by (subst j, subst power_int_add) auto
  have "real_of_int m * (ulp * 2 ^ d) / ulp = of_int (m * 2 ^ d)"
    using ulp_pos by simp
  then have q: "?x / ulp = of_int (m * 2 ^ d)"
    by (simp only: pj)
  have "round_half_even (?x / ulp) * ulp = ?x / ulp * ulp"
    by (simp only: q round_half_even_of_int)
  then have "round_half_even (?x / ulp) * ulp = ?x"
    using ulp_pos by simp
  then have r: "round_half_even (?x / ?ulp) * ?ulp = ?x"
    by (simp only: ulp_def)
  have "precision F + j \<le> emax F + 1" using assms(3) by simp
  then have "(2::real) powi (precision F + j) \<le> 2 powi (emax F + 1)"
    by (intro power_int_increasing) auto
  then have "\<not> 2 powi (emax F + 1) \<le> \<bar>?x\<bar>" using x by linarith
  moreover have "?x \<noteq> 0" using False by simp
  ultimately show ?thesis
    using r by (simp add: round_to_format_def Let_def)
qed

lemma round_to_format_int:
  assumes "\<bar>m\<bar> < 2 ^ nat (precision F)"
  shows "round_to_format F (of_int m) = Fin (of_int m)"
proof -
  have "emin F - precision F + 1 \<le> 0" by (cases F) simp_all
  moreover have "0 + precision F \<le> emax F + 1" by (cases F) simp_all
  ultimately show ?thesis
    using round_to_format_dyadic [OF assms, of 0] by simp
qed

text \<open>Evaluating a rounding once the binade is known.\<close>

lemma round_to_format_at:
  assumes "x \<noteq> 0" and "emin F \<le> e" and "e \<le> emax F"
    and "2 powi e \<le> \<bar>x\<bar> \<or> e = emin F" and "\<bar>x\<bar> < 2 powi (e + 1)"
    and "r = round_half_even (x / 2 powi (e - precision F + 1)) * 2 powi (e - precision F + 1)"
    and "\<bar>r\<bar> < 2 powi (emax F + 1)"
  shows "round_to_format F x = Fin r"
proof -
  have "exponent F \<bar>x\<bar> = e" using assms(2-5) by (rule exponent_eq)
  then show ?thesis using assms(1,6,7) by (simp add: round_to_format_def Let_def)
qed


lemma py_int_small:
  "\<bar>n\<bar> < 2 ^ nat (precision F) \<Longrightarrow> py_int F n = Fin (of_int n)"
  by (simp add: py_int_def round_to_format_int)

lemma py_int_byte: "\<bar>n\<bar> \<le> 1024 \<Longrightarrow> py_int F n = Fin (of_int n)"
  by (rule py_int_small) (cases F; simp)

lemma cast_elem_in_range:
  assumes "map_of integer_storage (dtype_str d) = Some (signed, bits, reg)"
    and "if signed then - (2 ^ (bits - 1)) \<le> k \<and> k < 2 ^ (bits - 1) else 0 \<le> k \<and> k < 2 ^ bits"
  shows "cast_elem d (Fin (of_int k)) = Fin (of_int k)"
proof -
  have "(dtype_str d, signed, bits, reg) \<in> set integer_storage"
    using assms(1) by (rule map_of_SomeD)
  then have "low_bits signed bits (cvtt reg (Fin (of_int k))) = k"
    using assms(2)
    by (auto simp: integer_storage_def cvtt_def low_bits_def trunc_of_int mod_pos_pos_trivial)
  then show ?thesis
    using assms(1) by (simp add: cast_elem_def)
qed

lemma cast_elem_nan_uint8: "dtype_str d = ''uint8'' \<Longrightarrow> cast_elem d NaN = Fin 0"
  by (simp add: cast_elem_def integer_storage_def cvtt_def low_bits_def)

lemma cast_elem_float32: "cast_elem np_float32 (Fin x) = round_to_format Binary32 x"
  by (simp add: cast_elem_def np_float32_def integer_storage_def float_formats_def)

subsection \<open>Conversion\<close>

text \<open>
  What the two conversions compute for a dtype whose stamped name is the descriptor's
  external-format name: quantization divides by the scale, rounds to an integer, adds the
  zero-point of an unsigned descriptor, clips between the two bounds and casts, all in
  the array's float format, scale, zero-point and bounds being converted to that format
  first; dequantization converts to float32, subtracts the zero-point of an unsigned
  descriptor and multiplies by the scale, in float32.
\<close>

lemma convert_to_unsigned:
  "metadata dt = Some md \<Longrightarrow> cname dtype_meta = Some (mgb_name md) \<Longrightarrow>
   is_unsigned dtype_meta \<Longrightarrow> mgb_zero_point md = Some zp \<Longrightarrow>
   convert_to_quantized_dtype (NdArray a) dt dtype_meta =
     Inr \<lparr>dtype = dt,
          elems = map (\<lambda>v. cast_elem dt
                        (fl_min
                           (fl_max
                              (fl_add (array_format (dtype a))
                                 (rint (fl_div (array_format (dtype a))
                                          (to_format (array_format (dtype a)) v)
                                          (py_float (array_format (dtype a)) (mgb_scale md))))
                                 (py_int (array_format (dtype a)) zp))
                              (py_int (array_format (dtype a)) (qmin dtype_meta)))
                           (py_int (array_format (dtype a)) (qmax dtype_meta))))
                    (elems a)\<rparr>"
  by (simp add: convert_to_quantized_dtype_def is_quantize_def astype_def np_clip_def
      np_add_def np_round_def np_divide_def o_def Let_def)

lemma convert_to_signed:
  "metadata dt = Some md \<Longrightarrow> cname dtype_meta = Some (mgb_name md) \<Longrightarrow>
   \<not> is_unsigned dtype_meta \<Longrightarrow>
   convert_to_quantized_dtype (NdArray a) dt dtype_meta =
     Inr \<lparr>dtype = dt,
          elems = map (\<lambda>v. cast_elem dt
                        (fl_min
                           (fl_max
                              (rint (fl_div (array_format (dtype a))
                                       (to_format (array_format (dtype a)) v)
                                       (py_float (array_format (dtype a)) (mgb_scale md))))
                              (py_int (array_format (dtype a)) (qmin dtype_meta)))
                           (py_int (array_format (dtype a)) (qmax dtype_meta))))
                    (elems a)\<rparr>"
  by (simp add: convert_to_quantized_dtype_def is_quantize_def astype_def np_clip_def
      np_round_def np_divide_def o_def Let_def)

lemma convert_from_unsigned:
  "metadata dt = Some md \<Longrightarrow> cname dtype_meta = Some (mgb_name md) \<Longrightarrow>
   is_unsigned dtype_meta \<Longrightarrow> mgb_zero_point md = Some zp \<Longrightarrow>
   convert_from_quantized_dtype (NdArray \<lparr>dtype = dt, elems = qs\<rparr>) dtype_meta =
     Inr \<lparr>dtype = np_float32,
          elems = map (\<lambda>v. fl_mul Binary32
                        (fl_sub Binary32 (cast_elem np_float32 v) (py_int Binary32 zp))
                        (py_float Binary32 (mgb_scale md))) qs\<rparr>"
  by (simp add: convert_from_quantized_dtype_def is_quantize_def astype_def np_multiply_def
      np_subtract_def o_def Let_def)

lemma convert_from_signed:
  "metadata dt = Some md \<Longrightarrow> cname dtype_meta = Some (mgb_name md) \<Longrightarrow>
   \<not> is_unsigned dtype_meta \<Longrightarrow>
   convert_from_quantized_dtype (NdArray \<lparr>dtype = dt, elems = qs\<rparr>) dtype_meta =
     Inr \<lparr>dtype = np_float32,
          elems = map (\<lambda>v. fl_mul Binary32 (cast_elem np_float32 v)
                        (py_float Binary32 (mgb_scale md))) qs\<rparr>"
  by (simp add: convert_from_quantized_dtype_def is_quantize_def astype_def np_multiply_def
      o_def Let_def)


text \<open>
  A dtype stamped with the name of an unsigned descriptor but without a zero-point (none
  that \<^verbatim>\<open>create_quantized_dtype\<close> makes from an unsigned descriptor) stops the
  conversion at the dictionary lookup.
\<close>

lemma convert_to_unsigned_without_zero_point:
  "metadata dt = Some md \<Longrightarrow> cname dtype_meta = Some (mgb_name md) \<Longrightarrow>
   is_unsigned dtype_meta \<Longrightarrow> mgb_zero_point md = None \<Longrightarrow>
   convert_to_quantized_dtype (NdArray a) dt dtype_meta = Inl (KeyError ''zero_point'')"
  by (simp add: convert_to_quantized_dtype_def is_quantize_def)


lemma rint_cases:
  obtains k where "rint y = Fin (of_int k)" | "rint y = PosInf" | "rint y = NegInf" | "rint y = NaN"
proof (cases y)
  case (Fin x)
  obtain k where "round_half_even x = of_int k"
    using round_half_even_integral [of x] by (auto elim: Ints_cases)
  then show ?thesis using Fin that(1) by simp
qed (use that in simp_all)

text \<open>Clipping to \<open>[-128, 127]\<close> and storing as \<open>int8\<close>, case by case.\<close>

lemma clip_cast_int8:
  assumes "dtype_str d = ''int8''"
  shows "cast_elem d (fl_min (fl_max (rint y) (py_int F (- 128))) (py_int F 127)) =
     (case rint y of
        Fin r \<Rightarrow> Fin (min (max r (- 128)) 127)
      | PosInf \<Rightarrow> Fin 127
      | NegInf \<Rightarrow> Fin (- 128)
      | NaN \<Rightarrow> Fin 0)"
proof -
  have lo: "py_int F (- 128) = Fin (- 128)" and hi: "py_int F 127 = Fin 127"
    using py_int_byte [of "- 128" F] py_int_byte [of 127 F] by simp_all
  have tab: "map_of integer_storage (dtype_str d) = Some (True, 8, 32)"
    using assms by (simp add: integer_storage_def)
  have cast: "cast_elem d (Fin (of_int j)) = Fin (of_int j)" if "- 128 \<le> j" "j \<le> 127" for j
    using that by (intro cast_elem_in_range [OF tab]) simp
  show ?thesis
  proof (cases y rule: rint_cases)
    case (1 k)
    have "min (max (real_of_int k) (- 128)) 127 = of_int (min (max k (- 128)) 127)"
      by (simp add: min_def max_def)
    then show ?thesis
      using 1 cast [of "min (max k (- 128)) 127"] by (simp add: lo hi)
  next
    case 2
    then show ?thesis using cast [of 127] by (simp add: lo hi)
  next
    case 3
    then show ?thesis using cast [of "- 128"] by (simp add: lo hi)
  next
    case 4
    then show ?thesis
      using tab by (simp add: lo hi cast_elem_def cvtt_def low_bits_def)
  qed
qed

text \<open>
  Claim C9. The conversion compares the stamped name only. A dtype created from the
  \<open>qint8_narrow\<close> descriptor is stamped \<open>QuantizedS8\<close>, as one created from \<open>qint8\<close> is, so
  \<^verbatim>\<open>convert_to_qint8\<close> accepts it for every array and every scale, and clips to the
  range \<open>[-128, 127]\<close> of \<open>qint8\<close>: each element is the rounded quotient clipped to
  \<open>[-128, 127]\<close> (an infinite quotient gives the bound, \<^verbatim>\<open>nan\<close> gives 0), and the value
  \<open>-200\<close> at scale 1 becomes \<open>-128\<close>, outside the range \<open>[-127, 127]\<close> of \<open>qint8_narrow\<close>.
\<close>

theorem convert_to_qint8_accepts_narrow:
  "builtin_quant_dtype ''qint8_narrow'' =
     Inr \<lparr>name = ''qint8_narrow'', cname = Some ''QuantizedS8'', np_dtype_str = ''int8'',
          qmin = - 127, qmax = 127, is_unsigned = False\<rparr> \<and>
   create_quantized_dtype
     \<lparr>name = ''qint8_narrow'', cname = Some ''QuantizedS8'', np_dtype_str = ''int8'',
      qmin = - 127, qmax = 127, is_unsigned = False\<rparr> scale None =
     Inr \<lparr>dtype_str = ''int8'',
          metadata = Some \<lparr>mgb_name = ''QuantizedS8'', mgb_scale = scale,
                            mgb_zero_point = None\<rparr>\<rparr> \<and>
   convert_to_qint8 (NdArray a)
     \<lparr>dtype_str = ''int8'',
      metadata = Some \<lparr>mgb_name = ''QuantizedS8'', mgb_scale = scale, mgb_zero_point = None\<rparr>\<rparr> =
     Inr \<lparr>dtype = \<lparr>dtype_str = ''int8'',
                    metadata = Some \<lparr>mgb_name = ''QuantizedS8'', mgb_scale = scale,
                                      mgb_zero_point = None\<rparr>\<rparr>,
          elems = map (\<lambda>v. case rint (fl_div (array_format (dtype a))
                                        (to_format (array_format (dtype a)) v)
                                        (py_float (array_format (dtype a)) scale)) of
                              Fin r \<Rightarrow> Fin (min (max r (- 128)) 127)
                            | PosInf \<Rightarrow> Fin 127
                            | NegInf \<Rightarrow> Fin (- 128)
                            | NaN \<Rightarrow> Fin 0) (elems a)\<rparr> \<and>
   convert_to_qint8 (NdArray \<lparr>dtype = np_float32, elems = [Fin (- 200), Fin 200]\<rparr>)
     \<lparr>dtype_str = ''int8'',
      metadata = Some \<lparr>mgb_name = ''QuantizedS8'', mgb_scale = 1, mgb_zero_point = None\<rparr>\<rparr> =
     Inr \<lparr>dtype = \<lparr>dtype_str = ''int8'',
                    metadata = Some \<lparr>mgb_name = ''QuantizedS8'', mgb_scale = 1,
                                      mgb_zero_point = None\<rparr>\<rparr>,
          elems = [Fin (- 128), Fin 127]\<rparr>"
proof -
  let ?narrow = "\<lparr>name = ''qint8_narrow'', cname = Some ''QuantizedS8'', np_dtype_str = ''int8'',
          qmin = - 127, qmax = 127, is_unsigned = False\<rparr>"
  let ?q8 = "\<lparr>name = ''qint8'', cname = Some ''QuantizedS8'', np_dtype_str = ''int8'',
          qmin = - 128, qmax = 127, is_unsigned = False\<rparr>"
  let ?md = "\<lambda>s. \<lparr>mgb_name = ''QuantizedS8'', mgb_scale = s, mgb_zero_point = None\<rparr>"
  let ?d = "\<lambda>s. \<lparr>dtype_str = ''int8'', metadata = Some (?md s)\<rparr>"
  have cat: "builtin_quant_dtype ''qint8_narrow'' = Inr ?narrow"
    by (simp add: builtin_quant_dtype_def builtin_quant_dtypes_def)
  have q8: "builtin_quant_dtype ''qint8'' = Inr ?q8"
    by (simp add: builtin_quant_dtype_def builtin_quant_dtypes_def)
  have mk: "create_quantized_dtype ?narrow scale None = Inr (?d scale)"
    by (simp add: create_quantized_dtype_def)
  have conv: "convert_to_qint8 (NdArray b) (?d s) =
      Inr \<lparr>dtype = ?d s,
           elems = map (\<lambda>v. case rint (fl_div (array_format (dtype b))
                                        (to_format (array_format (dtype b)) v)
                                        (py_float (array_format (dtype b)) s)) of
                              Fin r \<Rightarrow> Fin (min (max r (- 128)) 127)
                            | PosInf \<Rightarrow> Fin 127
                            | NegInf \<Rightarrow> Fin (- 128)
                            | NaN \<Rightarrow> Fin 0) (elems b)\<rparr>" for b s
    using convert_to_signed [of "?d s" "?md s" ?q8 b]
    by (simp add: convert_to_qint8_def with_builtin_def q8 clip_cast_int8)
  have one: "py_float Binary32 1 = Fin 1"
    using round_to_format_int [of 1 Binary64] round_to_format_int [of 1 Binary32]
    by (simp add: py_float_def)
  have r200: "round_to_format Binary32 200 = Fin 200"
    "round_to_format Binary32 (- 200) = Fin (- 200)"
    using round_to_format_int [of 200 Binary32] round_to_format_int [of "- 200" Binary32]
    by simp_all
  have ex: "convert_to_qint8 (NdArray \<lparr>dtype = np_float32, elems = [Fin (- 200), Fin 200]\<rparr>) (?d 1) =
      Inr \<lparr>dtype = ?d 1, elems = [Fin (- 128), Fin 127]\<rparr>"
    by (simp add: conv np_float32_def array_format_def float_formats_def one r200
        round_half_even_def)
  from cat mk conv [of a scale] ex show ?thesis by simp
qed

theorem convert_to_qint8_accepts_narrow_witness:
  "convert_to_qint8 (NdArray \<lparr>dtype = np_float32, elems = [Fin (- 100), Fin 1, Fin 63, NaN]\<rparr>)
     \<lparr>dtype_str = ''int8'',
      metadata = Some \<lparr>mgb_name = ''QuantizedS8'', mgb_scale = 1 / 2, mgb_zero_point = None\<rparr>\<rparr> =
     Inr \<lparr>dtype = \<lparr>dtype_str = ''int8'',
                    metadata = Some \<lparr>mgb_name = ''QuantizedS8'', mgb_scale = 1 / 2,
                                      mgb_zero_point = None\<rparr>\<rparr>,
          elems = [Fin (- 128), Fin 2, Fin 126, Fin 0]\<rparr>"
proof -
  have half64: "round_to_format Binary64 (1 / 2) = Fin (1 / 2)"
    using round_to_format_dyadic [of 1 Binary64 "- 1"] by simp
  have half32: "round_to_format Binary32 (1 / 2) = Fin (1 / 2)"
    using round_to_format_dyadic [of 1 Binary32 "- 1"] by simp
  have half: "py_float Binary32 (1 / 2) = Fin (1 / 2)"
    by (simp add: py_float_def half64 half32)
  have ints: "round_to_format Binary32 (- 200) = Fin (- 200)"
    "round_to_format Binary32 2 = Fin 2" "round_to_format Binary32 126 = Fin 126"
    "round_to_format Binary32 (- 100) = Fin (- 100)"
    "round_to_format Binary32 1 = Fin 1" "round_to_format Binary32 63 = Fin 63"
    using round_to_format_int [of "- 200" Binary32] round_to_format_int [of 2 Binary32]
      round_to_format_int [of 126 Binary32] round_to_format_int [of "- 100" Binary32]
      round_to_format_int [of 1 Binary32] round_to_format_int [of 63 Binary32]
    by simp_all
  show ?thesis
    using convert_to_qint8_accepts_narrow [of "1 / 2"
        "\<lparr>dtype = np_float32, elems = [Fin (- 100), Fin 1, Fin 63, NaN]\<rparr>"]
    by (simp add: np_float32_def array_format_def float_formats_def half ints
        round_half_even_def)
qed

text \<open>
  The upper bound of \<open>qint32\<close> is not a float32 number: converted to float32 it becomes
  \<open>2^31\<close>. The lower bound and the value three billion are float32 numbers.
\<close>

lemma float32_of_int32_max: "py_int Binary32 (2 ^ 31 - 1) = Fin (2 ^ 31)"
  unfolding py_int_def
  by (rule round_to_format_at [where e = 30]) (simp_all add: round_half_even_def)

lemma float32_of_int32_min: "py_int Binary32 (- (2 ^ 31)) = Fin (- (2 ^ 31))"
  using round_to_format_dyadic [of "- 1" Binary32 31] by (simp add: py_int_def)

lemma float32_three_billion: "round_to_format Binary32 3000000000 = Fin 3000000000"
  using round_to_format_dyadic [of 11718750 Binary32 8] by simp

lemma py_float_one: "py_float F 1 = Fin 1"
  using round_to_format_int [of 1 Binary64] round_to_format_int [of 1 F]
  by (cases F) (simp_all add: py_float_def)

lemma qint32_float64_clips:
  "convert_to_qint32 (NdArray \<lparr>dtype = \<lparr>dtype_str = ''float64'', metadata = None\<rparr>,
                               elems = [Fin 3000000000]\<rparr>)
     \<lparr>dtype_str = ''int32'',
      metadata = Some \<lparr>mgb_name = ''QuantizedS32'', mgb_scale = 1, mgb_zero_point = None\<rparr>\<rparr> =
     Inr \<lparr>dtype = \<lparr>dtype_str = ''int32'',
                    metadata = Some \<lparr>mgb_name = ''QuantizedS32'', mgb_scale = 1,
                                      mgb_zero_point = None\<rparr>\<rparr>,
          elems = [Fin 2147483647]\<rparr>"
proof -
  let ?m = "\<lparr>name = ''qint32'', cname = Some ''QuantizedS32'', np_dtype_str = ''int32'',
            qmin = - (2 ^ 31), qmax = 2 ^ 31 - 1, is_unsigned = False\<rparr>"
  let ?md = "\<lparr>mgb_name = ''QuantizedS32'', mgb_scale = 1, mgb_zero_point = None\<rparr>"
  let ?d = "\<lparr>dtype_str = ''int32'', metadata = Some ?md\<rparr>"
  have m: "builtin_quant_dtype ''qint32'' = Inr ?m"
    by (simp add: builtin_quant_dtype_def builtin_quant_dtypes_def)
  have hi: "py_int Binary64 (2 ^ 31 - 1) = Fin 2147483647"
    using py_int_small [of "2 ^ 31 - 1" Binary64] by simp
  have lo: "py_int Binary64 (- (2 ^ 31)) = Fin (- 2147483648)"
    using py_int_small [of "- (2 ^ 31)" Binary64] by simp
  have x: "round_to_format Binary64 3000000000 = Fin 3000000000"
    using round_to_format_int [of 3000000000 Binary64] by simp
  have tab: "map_of integer_storage (dtype_str ?d) = Some (True, 32, 32)"
    by (simp add: integer_storage_def)
  have cast: "cast_elem ?d (Fin 2147483647) = Fin 2147483647"
    using cast_elem_in_range [OF tab, of 2147483647] by simp
  show ?thesis
    using convert_to_signed [of ?d ?md ?m
        "\<lparr>dtype = \<lparr>dtype_str = ''float64'', metadata = None\<rparr>, elems = [Fin 3000000000]\<rparr>"]
      hi lo cast
    by (simp add: convert_to_qint32_def with_builtin_def m array_format_def
        float_formats_def py_float_one x round_half_even_def)
qed

text \<open>
  Claim C2 says that quantization clips the rounded quotient to \<open>[qmin, qmax]\<close> before
  the cast, and that is what \<^verbatim>\<open>.clip(qmin, qmax).astype(dtype)\<close> is written to do. For
  \<open>qint32\<close> on a float32 array it does not happen: the upper clip bound \<open>2^31 - 1\<close> is
  converted to float32, where it is \<open>2^31\<close>; the value three billion is clipped to
  \<open>2^31\<close>, which does not fit \<open>int32\<close>, and the cast gives \<open>-2147483648\<close>. The same call
  on a float64 array, where the bound is exact, gives \<open>2147483647\<close>.
\<close>

theorem qint32_float32_clip_overflow:
  "qint32 1 =
     Inr \<lparr>dtype_str = ''int32'',
          metadata = Some \<lparr>mgb_name = ''QuantizedS32'', mgb_scale = 1, mgb_zero_point = None\<rparr>\<rparr> \<and>
   py_int Binary32 (2 ^ 31 - 1) = Fin (2 ^ 31) \<and>
   convert_to_qint32 (NdArray \<lparr>dtype = np_float32, elems = [Fin 3000000000]\<rparr>)
     \<lparr>dtype_str = ''int32'',
      metadata = Some \<lparr>mgb_name = ''QuantizedS32'', mgb_scale = 1, mgb_zero_point = None\<rparr>\<rparr> =
     Inr \<lparr>dtype = \<lparr>dtype_str = ''int32'',
                    metadata = Some \<lparr>mgb_name = ''QuantizedS32'', mgb_scale = 1,
                                      mgb_zero_point = None\<rparr>\<rparr>,
          elems = [Fin (- 2147483648)]\<rparr> \<and>
   convert_to_qint32 (NdArray \<lparr>dtype = \<lparr>dtype_str = ''float64'', metadata = None\<rparr>,
                               elems = [Fin 3000000000]\<rparr>)
     \<lparr>dtype_str = ''int32'',
      metadata = Some \<lparr>mgb_name = ''QuantizedS32'', mgb_scale = 1, mgb_zero_point = None\<rparr>\<rparr> =
     Inr \<lparr>dtype = \<lparr>dtype_str = ''int32'',
                    metadata = Some \<lparr>mgb_name = ''QuantizedS32'', mgb_scale = 1,
                                      mgb_zero_point = None\<rparr>\<rparr>,
          elems = [Fin 2147483647]\<rparr>"
proof -
  let ?m = "\<lparr>name = ''qint32'', cname = Some ''QuantizedS32'', np_dtype_str = ''int32'',
            qmin = - (2 ^ 31), qmax = 2 ^ 31 - 1, is_unsigned = False\<rparr>"
  let ?md = "\<lparr>mgb_name = ''QuantizedS32'', mgb_scale = 1, mgb_zero_point = None\<rparr>"
  let ?d = "\<lparr>dtype_str = ''int32'', metadata = Some ?md\<rparr>"
  have m: "builtin_quant_dtype ''qint32'' = Inr ?m"
    by (simp add: builtin_quant_dtype_def builtin_quant_dtypes_def)
  have mk: "qint32 1 = Inr ?d"
    by (simp add: qint32_def with_builtin_def m create_quantized_dtype_def)
  have conv: "convert_to_qint32 (NdArray \<lparr>dtype = np_float32, elems = [Fin 3000000000]\<rparr>) ?d =
      Inr \<lparr>dtype = ?d, elems = [Fin (- 2147483648)]\<rparr>"
    using convert_to_signed [of ?d ?md ?m "\<lparr>dtype = np_float32, elems = [Fin 3000000000]\<rparr>"]
      float32_of_int32_max float32_of_int32_min
    by (simp add: convert_to_qint32_def with_builtin_def m np_float32_def array_format_def
        float_formats_def py_float_one float32_three_billion round_half_even_def
        cast_elem_def integer_storage_def cvtt_def low_bits_def trunc_def)
  from mk float32_of_int32_max conv qint32_float64_clips show ?thesis by simp
qed

text \<open>A zero scale: the quotients are infinities and \<^verbatim>\<open>nan\<close>.\<close>

lemma quint8_zero_scale:
  "convert_to_quint8 (NdArray \<lparr>dtype = np_float32, elems = [Fin 1, Fin 0, Fin (- 1)]\<rparr>)
     \<lparr>dtype_str = ''uint8'',
      metadata = Some \<lparr>mgb_name = ''Quantized8Asymm'', mgb_scale = 0,
                        mgb_zero_point = Some 128\<rparr>\<rparr> =
     Inr \<lparr>dtype = \<lparr>dtype_str = ''uint8'',
                    metadata = Some \<lparr>mgb_name = ''Quantized8Asymm'', mgb_scale = 0,
                                      mgb_zero_point = Some 128\<rparr>\<rparr>,
          elems = [Fin 255, Fin 0, Fin 0]\<rparr>"
proof -
  let ?m = "\<lparr>name = ''quint8'', cname = Some ''Quantized8Asymm'', np_dtype_str = ''uint8'',
            qmin = 0, qmax = 255, is_unsigned = True\<rparr>"
  let ?md = "\<lparr>mgb_name = ''Quantized8Asymm'', mgb_scale = 0, mgb_zero_point = Some 128\<rparr>"
  let ?q = "\<lparr>dtype_str = ''uint8'', metadata = Some ?md\<rparr>"
  have m: "builtin_quant_dtype ''quint8'' = Inr ?m"
    by (simp add: builtin_quant_dtype_def builtin_quant_dtypes_def)
  have z: "py_float Binary32 0 = Fin 0"
    by (simp add: py_float_def round_to_format_def)
  have el: "round_to_format Binary32 1 = Fin 1" "round_to_format Binary32 0 = Fin 0"
    "round_to_format Binary32 (- 1) = Fin (- 1)"
    using round_to_format_int [of 1 Binary32] round_to_format_int [of 0 Binary32]
      round_to_format_int [of "- 1" Binary32]
    by simp_all
  have tab: "map_of integer_storage (dtype_str ?q) = Some (False, 8, 32)"
    by (simp add: integer_storage_def)
  have cast: "cast_elem ?q (Fin 255) = Fin 255" "cast_elem ?q (Fin 0) = Fin 0"
    using cast_elem_in_range [OF tab, of 255] cast_elem_in_range [OF tab, of 0] by simp_all
  show ?thesis
    using convert_to_unsigned [of ?q ?md ?m 128
        "\<lparr>dtype = np_float32, elems = [Fin 1, Fin 0, Fin (- 1)]\<rparr>"]
      py_int_byte [of 128 Binary32] py_int_byte [of 0 Binary32] py_int_byte [of 255 Binary32]
      cast
    by (simp add: convert_to_quint8_def with_builtin_def m np_float32_def array_format_def
        float_formats_def z el cast_elem_nan_uint8)
qed

text \<open>Dequantization goes through float32: an integer above \<open>2^24\<close> is rounded.\<close>

lemma qint32_dequantize_rounds:
  "convert_from_qint32
     (NdArray \<lparr>dtype = \<lparr>dtype_str = ''int32'',
                         metadata = Some \<lparr>mgb_name = ''QuantizedS32'', mgb_scale = 1,
                                           mgb_zero_point = None\<rparr>\<rparr>,
               elems = [Fin 16777217]\<rparr>) =
     Inr \<lparr>dtype = np_float32, elems = [Fin 16777216]\<rparr>"
proof -
  let ?m = "\<lparr>name = ''qint32'', cname = Some ''QuantizedS32'', np_dtype_str = ''int32'',
            qmin = - (2 ^ 31), qmax = 2 ^ 31 - 1, is_unsigned = False\<rparr>"
  let ?md = "\<lparr>mgb_name = ''QuantizedS32'', mgb_scale = 1, mgb_zero_point = None\<rparr>"
  let ?d = "\<lparr>dtype_str = ''int32'', metadata = Some ?md\<rparr>"
  have m: "builtin_quant_dtype ''qint32'' = Inr ?m"
    by (simp add: builtin_quant_dtype_def builtin_quant_dtypes_def)
  have r: "round_to_format Binary32 16777217 = Fin 16777216"
    by (rule round_to_format_at [where e = 24]) (simp_all add: round_half_even_def)
  have r': "round_to_format Binary32 16777216 = Fin 16777216"
    using round_to_format_dyadic [of 1 Binary32 24] by simp
  show ?thesis
    using convert_from_signed [of ?d ?md ?m "[Fin 16777217]"]
    by (simp add: convert_from_qint32_def with_builtin_def m cast_elem_float32 r r'
        py_float_one)
qed

subsection \<open>The round trip through quint8\<close>

text \<open>
  The Python float \<open>0.1\<close> is the binary64 number nearest to one tenth; as a float32 and
  as a float16 scalar it is rounded again.
\<close>

lemma python_float_tenth:
  "round_to_format Binary64 (1 / 10) = Fin (3602879701896397 / 36028797018963968)"
  by (rule round_to_format_at [where e = "- 4"]) (simp_all add: round_half_even_def)

lemma py_float64_tenth:
  "py_float Binary64 (1 / 10) = Fin (3602879701896397 / 36028797018963968)"
proof -
  have "round_to_format Binary64 (3602879701896397 / 36028797018963968) =
      Fin (3602879701896397 / 36028797018963968)"
    using round_to_format_dyadic [of 3602879701896397 Binary64 "- 55"] by simp
  then show ?thesis by (simp add: py_float_def python_float_tenth)
qed

lemma py_float32_tenth: "py_float Binary32 (1 / 10) = Fin (13421773 / 134217728)"
proof -
  have "round_to_format Binary32 (3602879701896397 / 36028797018963968) =
      Fin (13421773 / 134217728)"
    by (rule round_to_format_at [where e = "- 4"]) (simp_all add: round_half_even_def)
  then show ?thesis by (simp add: py_float_def python_float_tenth)
qed

lemma py_float16_tenth: "py_float Binary16 (1 / 10) = Fin (819 / 8192)"
proof -
  have "round_to_format Binary16 (3602879701896397 / 36028797018963968) = Fin (819 / 8192)"
    by (rule round_to_format_at [where e = "- 4"]) (simp_all add: round_half_even_def)
  then show ?thesis by (simp add: py_float_def python_float_tenth)
qed

lemma quint8_tenth:
  "quint8 (1 / 10) (Some 128) =
     Inr \<lparr>dtype_str = ''uint8'',
          metadata = Some \<lparr>mgb_name = ''Quantized8Asymm'', mgb_scale = 1 / 10,
                            mgb_zero_point = Some 128\<rparr>\<rparr>"
  by (simp add: quint8_def with_builtin_def builtin_quant_dtype_def builtin_quant_dtypes_def
      create_quantized_dtype_def trunc_def check_zero_point_def)

lemma quantize_quotient_tenth:
  assumes "\<bar>v - of_int k / 10\<bar> \<le> 1 / 25"
    and "0 \<le> k + 128" and "k + 128 \<le> 255" and "dtype_str d = ''uint8''"
  shows "cast_elem d
           (fl_min (fl_max (fl_add F (rint (fl_div F (Fin v) (py_float F (1 / 10))))
                              (py_int F 128))
                      (py_int F 0))
              (py_int F 255)) = Fin (of_int (k + 128))"
proof -
  have kb: "- 128 \<le> real_of_int k" "real_of_int k \<le> 127"
    using assms(2,3) by simp_all
  have "\<exists>r. fl_div F (Fin v) (py_float F (1 / 10)) = Fin r \<and> \<bar>r - of_int k\<bar> < 1 / 2"
  proof (cases F)
    case Binary16
    let ?y = "v * (8192 / 819)"
    have dv: "v / (819 / 8192) = ?y" by simp
    have y: "\<bar>?y - of_int k\<bar> \<le> 432 / 1000"
      using assms(1) kb by linarith
    have "(2::real) powi (7 + 1) = 256" by simp
    then have "\<bar>?y\<bar> < 2 powi (7 + 1)" using y kb by linarith
    then obtain r where r: "round_to_format Binary16 ?y = Fin r"
        "\<bar>r - ?y\<bar> \<le> 2 powi (7 - precision Binary16 + 1) / 2"
      using round_to_format_error [of ?y 7 Binary16] by auto
    from r(2) have "\<bar>r - ?y\<bar> \<le> 1 / 16" by simp
    with y have "\<bar>r - of_int k\<bar> < 1 / 2" by linarith
    with r(1) show ?thesis using Binary16 by (simp add: py_float16_tenth dv)
  next
    case Binary32
    let ?y = "v * (134217728 / 13421773)"
    have dv: "v / (13421773 / 134217728) = ?y" by simp
    have y: "\<bar>?y - of_int k\<bar> \<le> 41 / 100"
      using assms(1) kb by linarith
    have "(2::real) powi (7 + 1) = 256" by simp
    then have "\<bar>?y\<bar> < 2 powi (7 + 1)" using y kb by linarith
    then obtain r where r: "round_to_format Binary32 ?y = Fin r"
        "\<bar>r - ?y\<bar> \<le> 2 powi (7 - precision Binary32 + 1) / 2"
      using round_to_format_error [of ?y 7 Binary32] by auto
    from r(2) have "\<bar>r - ?y\<bar> \<le> 1 / 1000" by simp
    with y have "\<bar>r - of_int k\<bar> < 1 / 2" by linarith
    with r(1) show ?thesis using Binary32 by (simp add: py_float32_tenth dv)
  next
    case Binary64
    let ?y = "v * (36028797018963968 / 3602879701896397)"
    have dv: "v / (3602879701896397 / 36028797018963968) = ?y" by simp
    have y: "\<bar>?y - of_int k\<bar> \<le> 41 / 100"
      using assms(1) kb by linarith
    have "(2::real) powi (7 + 1) = 256" by simp
    then have "\<bar>?y\<bar> < 2 powi (7 + 1)" using y kb by linarith
    then obtain r where r: "round_to_format Binary64 ?y = Fin r"
        "\<bar>r - ?y\<bar> \<le> 2 powi (7 - precision Binary64 + 1) / 2"
      using round_to_format_error [of ?y 7 Binary64] by auto
    from r(2) have "\<bar>r - ?y\<bar> \<le> 1 / 1000" by simp
    with y have "\<bar>r - of_int k\<bar> < 1 / 2" by linarith
    with r(1) show ?thesis using Binary64 by (simp add: py_float64_tenth dv)
  qed
  then obtain r where r: "fl_div F (Fin v) (py_float F (1 / 10)) = Fin r"
    "\<bar>r - of_int k\<bar> < 1 / 2" by blast
  have rk: "round_half_even r = of_int k" using r(2) by (rule round_half_even_near)
  have add: "round_to_format F (real_of_int k + 128) = Fin (of_int (k + 128))"
    using round_to_format_int [of "k + 128" F] assms(2,3) by (cases F) simp_all
  have tab: "map_of integer_storage (dtype_str d) = Some (False, 8, 32)"
    using assms(4) by (simp add: integer_storage_def)
  have cast: "cast_elem d (Fin (of_int (k + 128))) = Fin (of_int (k + 128))"
    using assms(2,3) by (intro cast_elem_in_range [OF tab]) simp
  have clip: "min (max (real_of_int k + 128) 0) 255 = real_of_int k + 128"
    using kb by simp
  show ?thesis
    using cast py_int_byte [of 128 F] py_int_byte [of 0 F] py_int_byte [of 255 F]
    by (simp add: r(1) rk add clip)
qed

lemma quantize_elem_tenth:
  assumes "\<bar>v - of_int k / 10\<bar> \<le> 3 / 100"
    and "0 \<le> k + 128" and "k + 128 \<le> 255" and "dtype_str d = ''uint8''"
  shows "cast_elem d
           (fl_min (fl_max (fl_add F (rint (fl_div F (to_format F (Fin v))
                                              (py_float F (1 / 10))))
                              (py_int F 128))
                      (py_int F 0))
              (py_int F 255)) = Fin (of_int (k + 128))"
proof -
  have kb: "- 128 \<le> real_of_int k" "real_of_int k \<le> 127"
    using assms(2,3) by simp_all
  have "(2::real) powi (3 + 1) = 16" by simp
  then have "\<bar>v\<bar> < 2 powi (3 + 1)" using assms(1) kb by linarith
  moreover have "emin F \<le> 3" "3 + 1 \<le> emax F" by (cases F; simp)+
  ultimately obtain v' where v': "round_to_format F v = Fin v'"
      "\<bar>v' - v\<bar> \<le> 2 powi (3 - precision F + 1) / 2"
    using round_to_format_error [of v 3 F] by auto
  have "(2::real) powi (3 - precision F + 1) / 2 \<le> 1 / 100"
    by (cases F) simp_all
  with v'(2) assms(1) have "\<bar>v' - of_int k / 10\<bar> \<le> 1 / 25" by linarith
  then show ?thesis
    using quantize_quotient_tenth [OF _ assms(2,3,4), of v' F] by (simp add: v'(1))
qed

lemma dequantize_elem_tenth:
  assumes "0 \<le> k + 128" and "k + 128 \<le> 255"
  shows "\<exists>w. fl_mul Binary32
              (fl_sub Binary32 (cast_elem np_float32 (Fin (of_int (k + 128))))
                 (py_int Binary32 128))
              (py_float Binary32 (1 / 10)) = Fin w \<and>
            fl_mul Binary32 (Fin (of_int k)) (py_float Binary32 (1 / 10)) = Fin w \<and>
            \<bar>w - of_int k / 10\<bar> \<le> 1 / 1000000"
proof -
  have kb: "- 128 \<le> real_of_int k" "real_of_int k \<le> 127"
    using assms by simp_all
  have c: "cast_elem np_float32 (Fin (of_int (k + 128))) = Fin (of_int (k + 128))"
    using round_to_format_int [of "k + 128" Binary32] assms
    by (simp add: cast_elem_float32 del: of_int_add)
  have s: "round_to_format Binary32 (real_of_int k) = Fin (of_int k)"
    using round_to_format_int [of k Binary32] assms by simp
  have sub: "fl_sub Binary32 (Fin (of_int (k + 128))) (py_int Binary32 128) = Fin (of_int k)"
    using py_int_byte [of 128 Binary32] by (simp add: fl_sub_def s)
  let ?y = "real_of_int k * (13421773 / 134217728)"
  have y: "\<bar>?y - of_int k / 10\<bar> \<le> 2 / 10000000"
    using kb by linarith
  have "(2::real) powi (3 + 1) = 16" by simp
  then have "\<bar>?y\<bar> < 2 powi (3 + 1)" using y kb by linarith
  then obtain w where w: "round_to_format Binary32 ?y = Fin w"
      "\<bar>w - ?y\<bar> \<le> 2 powi (3 - precision Binary32 + 1) / 2"
    using round_to_format_error [of ?y 3 Binary32] by auto
  from w(2) have "\<bar>w - ?y\<bar> \<le> 5 / 10000000" by simp
  with y have b: "\<bar>w - of_int k / 10\<bar> \<le> 1 / 1000000" by linarith
  have "fl_mul Binary32
          (fl_sub Binary32 (cast_elem np_float32 (Fin (of_int (k + 128))))
             (py_int Binary32 128))
          (py_float Binary32 (1 / 10)) = round_to_format Binary32 ?y"
    by (simp only: c sub py_float32_tenth fl_mul.simps)
  moreover have "fl_mul Binary32 (Fin (of_int k)) (py_float Binary32 (1 / 10)) =
      round_to_format Binary32 ?y"
    by (simp only: py_float32_tenth fl_mul.simps)
  ultimately show ?thesis using w(1) b by simp
qed

lemma list_all2_choose: "\<forall>k \<in> set ks. \<exists>w. P k w \<Longrightarrow> \<exists>ws. list_all2 P ks ws"
proof (induction ks)
  case Nil
  then show ?case by simp
next
  case (Cons k ks)
  then obtain w ws where "P k w" "list_all2 P ks ws" by auto
  then have "list_all2 P (k # ks) (w # ws)" by simp
  then show ?case by blast
qed

lemma map_eq_list_all2: "list_all2 (\<lambda>x y. f x = g y) xs ys \<Longrightarrow> map f xs = map g ys"
  by (induction xs ys rule: list_all2_induct) simp_all

text \<open>
  The Python product \<^verbatim>\<open>0.1 * -124\<close> is the binary64 number nearest to \<open>-12.4\<close>; stored in
  a float32 array it is the float32 number nearest to \<open>-12.4\<close>.
\<close>

lemma tenth_times_k_float64:
  "fl_mul Binary64 (py_float Binary64 (1 / 10)) (py_int Binary64 (- 124)) =
     Fin (- 6980579422424269 / 562949953421312)"
proof -
  have k: "py_int Binary64 (- 124) = Fin (- 124)"
    using py_int_byte [of "- 124" Binary64] by simp
  have "round_to_format Binary64 (3602879701896397 / 36028797018963968 * (- 124)) =
      Fin (- 6980579422424269 / 562949953421312)"
    by (rule round_to_format_at [where e = 3]) (simp_all add: round_half_even_def)
  then show ?thesis by (simp add: py_float64_tenth k)
qed

lemma tenth_times_k_float32:
  "to_format Binary32 (fl_mul Binary64 (py_float Binary64 (1 / 10)) (py_int Binary64 (- 124))) =
     Fin (- 6501171 / 524288)"
proof -
  have "round_to_format Binary32 (- 6980579422424269 / 562949953421312) =
      Fin (- 6501171 / 524288)"
    by (rule round_to_format_at [where e = 3]) (simp_all add: round_half_even_def)
  then show ?thesis by (simp only: tenth_times_k_float64 to_format.simps)
qed

text \<open>
  Claim C5 fails as stated, in its second half: with scale 0.1 and zero-point 128 the
  value \<open>0.1 * k\<close> for \<open>k = -124\<close>, held in a float32 array as the float32 number nearest
  to \<open>-12.4\<close>, is quantized to 4 and comes back as the next float32 number below,
  \<open>-13002343 / 2^20 = -12.40000057...\<close>: dequantization multiplies \<open>-124\<close> by the float32
  nearest to 0.1 and rounds the product to float32.
\<close>

theorem quint8_roundtrip_not_exact_counterexample:
  "quint8 (1 / 10) (Some 128) =
     Inr \<lparr>dtype_str = ''uint8'',
          metadata = Some \<lparr>mgb_name = ''Quantized8Asymm'', mgb_scale = 1 / 10,
                            mgb_zero_point = Some 128\<rparr>\<rparr> \<and>
   py_float Binary32 (- 124 / 10) = Fin (- 6501171 / 524288) \<and>
   to_format Binary32 (fl_mul Binary64 (py_float Binary64 (1 / 10)) (py_int Binary64 (- 124))) =
     Fin (- 6501171 / 524288) \<and>
   convert_to_quint8 (NdArray \<lparr>dtype = np_float32, elems = [Fin (- 6501171 / 524288)]\<rparr>)
     \<lparr>dtype_str = ''uint8'',
      metadata = Some \<lparr>mgb_name = ''Quantized8Asymm'', mgb_scale = 1 / 10,
                        mgb_zero_point = Some 128\<rparr>\<rparr> =
     Inr \<lparr>dtype = \<lparr>dtype_str = ''uint8'',
                    metadata = Some \<lparr>mgb_name = ''Quantized8Asymm'', mgb_scale = 1 / 10,
                                      mgb_zero_point = Some 128\<rparr>\<rparr>,
          elems = [Fin 4]\<rparr> \<and>
   convert_from_quint8
     (NdArray \<lparr>dtype = \<lparr>dtype_str = ''uint8'',
                         metadata = Some \<lparr>mgb_name = ''Quantized8Asymm'', mgb_scale = 1 / 10,
                                           mgb_zero_point = Some 128\<rparr>\<rparr>,
               elems = [Fin 4]\<rparr>) =
     Inr \<lparr>dtype = np_float32, elems = [Fin (- 13002343 / 1048576)]\<rparr> \<and>
   Fin (- 13002343 / 1048576) \<noteq> Fin (- 6501171 / 524288)"
proof -
  let ?m = "\<lparr>name = ''quint8'', cname = Some ''Quantized8Asymm'', np_dtype_str = ''uint8'',
            qmin = 0, qmax = 255, is_unsigned = True\<rparr>"
  let ?md = "\<lparr>mgb_name = ''Quantized8Asymm'', mgb_scale = 1 / 10, mgb_zero_point = Some 128\<rparr>"
  let ?q = "\<lparr>dtype_str = ''uint8'', metadata = Some ?md\<rparr>"
  have m: "builtin_quant_dtype ''quint8'' = Inr ?m"
    by (simp add: builtin_quant_dtype_def builtin_quant_dtypes_def)
  have in64: "round_to_format Binary64 (- 124 / 10) =
      Fin (- 6980579422424269 / 562949953421312)"
    by (rule round_to_format_at [where e = 3]) (simp_all add: round_half_even_def)
  have in32: "round_to_format Binary32 (- 6980579422424269 / 562949953421312) =
      Fin (- 6501171 / 524288)"
    by (rule round_to_format_at [where e = 3]) (simp_all add: round_half_even_def)
  have inp: "py_float Binary32 (- 124 / 10) = Fin (- 6501171 / 524288)"
    by (simp only: py_float_def in64 in32 npfloat.case)
  have dv: "round_to_format Binary32 (- 6501171 / 524288 / (13421773 / 134217728)) =
      Fin (- 16252927 / 131072)"
    by (rule round_to_format_at [where e = 6]) (simp_all add: round_half_even_def)
  have rn: "round_half_even (- 16252927 / 131072) = - 124"
    by (simp add: round_half_even_def)
  have i4: "round_to_format Binary32 4 = Fin 4"
    using round_to_format_int [of 4 Binary32] by simp
  have i124: "round_to_format Binary32 (- 124) = Fin (- 124)"
    using round_to_format_int [of "- 124" Binary32] by simp
  have ml: "round_to_format Binary32 (- 124 * (13421773 / 134217728)) =
      Fin (- 13002343 / 1048576)"
    by (rule round_to_format_at [where e = 3]) (simp_all add: round_half_even_def)
  have tab: "map_of integer_storage (dtype_str ?q) = Some (False, 8, 32)"
    by (simp add: integer_storage_def)
  have cast: "cast_elem ?q (Fin 4) = Fin 4"
    using cast_elem_in_range [OF tab, of 4] by simp
  have s0: "to_format Binary32 (Fin (- 6501171 / 524288)) = Fin (- 6501171 / 524288)"
    using round_to_format_dyadic [of "- 6501171" Binary32 "- 19"] by simp
  have s1: "fl_div Binary32 (Fin (- 6501171 / 524288)) (py_float Binary32 (1 / 10)) =
      Fin (- 16252927 / 131072)"
    using dv by (simp add: py_float32_tenth)
  have s2: "rint (Fin (- 16252927 / 131072)) = Fin (- 124)"
    by (simp add: round_half_even_def)
  have s3: "fl_add Binary32 (Fin (- 124)) (py_int Binary32 128) = Fin 4"
    using py_int_byte [of 128 Binary32] i4 by simp
  have s4: "fl_min (fl_max (Fin 4) (py_int Binary32 0)) (py_int Binary32 255) = Fin 4"
    using py_int_byte [of 0 Binary32] py_int_byte [of 255 Binary32] by simp
  have enc_elem: "cast_elem ?q
      (fl_min (fl_max (fl_add Binary32
                         (rint (fl_div Binary32 (to_format Binary32 (Fin (- 6501171 / 524288)))
                                  (py_float Binary32 (1 / 10))))
                         (py_int Binary32 128))
                 (py_int Binary32 0))
         (py_int Binary32 255)) = Fin 4"
    by (simp only: s0 s1 s2 s3 s4 cast)
  have enc: "convert_to_quint8 (NdArray \<lparr>dtype = np_float32, elems = [Fin (- 6501171 / 524288)]\<rparr>) ?q =
      Inr \<lparr>dtype = ?q, elems = [Fin 4]\<rparr>"
    using convert_to_unsigned [of ?q ?md ?m 128
        "\<lparr>dtype = np_float32, elems = [Fin (- 6501171 / 524288)]\<rparr>"] enc_elem
    by (simp add: convert_to_quint8_def with_builtin_def m np_float32_def array_format_def
        float_formats_def)
  have t1: "cast_elem np_float32 (Fin 4) = Fin 4"
    by (simp only: cast_elem_float32 i4)
  have t2: "fl_sub Binary32 (Fin 4) (py_int Binary32 128) = Fin (- 124)"
    using py_int_byte [of 128 Binary32] i124 by (simp add: fl_sub_def)
  have t3: "fl_mul Binary32 (Fin (- 124)) (py_float Binary32 (1 / 10)) =
      Fin (- 13002343 / 1048576)"
    using ml by (simp add: py_float32_tenth)
  have dec_elem: "fl_mul Binary32
      (fl_sub Binary32 (cast_elem np_float32 (Fin 4)) (py_int Binary32 128))
      (py_float Binary32 (1 / 10)) = Fin (- 13002343 / 1048576)"
    by (simp only: t1 t2 t3)
  have dec: "convert_from_quint8 (NdArray \<lparr>dtype = ?q, elems = [Fin 4]\<rparr>) =
      Inr \<lparr>dtype = np_float32, elems = [Fin (- 13002343 / 1048576)]\<rparr>"
    using convert_from_unsigned [of ?q ?md ?m 128 "[Fin 4]"] dec_elem
    by (simp add: convert_from_quint8_def with_builtin_def m)
  from quint8_tenth inp tenth_times_k_float32 enc dec show ?thesis by simp
qed

text \<open>
  Claim C5, amended. For \<open>quint8\<close> with scale 0.1 and zero-point 128, and an array of
  any float or integer type: every element that lies within \<open>0.03\<close> of \<open>0.1 * k\<close> for an
  integer \<open>k\<close> with \<open>qmin \<le> k + zero_point \<le> qmax\<close> (so the element \<open>1.0\<close>, with \<open>k = 10\<close>, and
  every float nearest to \<open>0.1 * k\<close>) is quantized to \<open>k + zero_point\<close>, and comes back as the
  float32 product of \<open>k\<close> and the float32 number nearest to 0.1, which is within \<open>scale / 2\<close>
  of the element and within \<open>10^-6\<close> of \<open>0.1 * k\<close>; it need not come back exactly.
\<close>

theorem quint8_roundtrip_within_half_scale:
  assumes "elems a = map Fin vs"
    and "list_all2 (\<lambda>v k. \<bar>v - of_int k / 10\<bar> \<le> 3 / 100 \<and> 0 \<le> k + 128 \<and> k + 128 \<le> 255) vs ks"
  shows "\<exists>q ws. quint8 (1 / 10) (Some 128) = Inr q \<and>
           convert_to_quint8 (NdArray a) q =
             Inr \<lparr>dtype = q, elems = map (\<lambda>k. Fin (of_int (k + 128))) ks\<rparr> \<and>
           convert_from_quint8
               (NdArray \<lparr>dtype = q, elems = map (\<lambda>k. Fin (of_int (k + 128))) ks\<rparr>) =
             Inr \<lparr>dtype = np_float32, elems = map Fin ws\<rparr> \<and>
           list_all2 (\<lambda>w k. fl_mul Binary32 (Fin (of_int k)) (py_float Binary32 (1 / 10)) = Fin w)
             ws ks \<and>
           list_all2 (\<lambda>w v. \<bar>w - v\<bar> \<le> (1 / 10) / 2) ws vs \<and>
           list_all2 (\<lambda>w k. \<bar>w - of_int k / 10\<bar> \<le> 1 / 1000000) ws ks"
proof -
  let ?m = "\<lparr>name = ''quint8'', cname = Some ''Quantized8Asymm'', np_dtype_str = ''uint8'',
            qmin = 0, qmax = 255, is_unsigned = True\<rparr>"
  let ?md = "\<lparr>mgb_name = ''Quantized8Asymm'', mgb_scale = 1 / 10, mgb_zero_point = Some 128\<rparr>"
  let ?q = "\<lparr>dtype_str = ''uint8'', metadata = Some ?md\<rparr>"
  let ?F = "array_format (dtype a)"
  let ?enc = "\<lambda>v. cast_elem ?q
                 (fl_min (fl_max (fl_add ?F (rint (fl_div ?F (to_format ?F v)
                                                     (py_float ?F (1 / 10))))
                                    (py_int ?F 128))
                            (py_int ?F 0))
                    (py_int ?F 255))"
  let ?code = "\<lambda>k. Fin (real_of_int (k + 128))"
  let ?dec = "\<lambda>x. fl_mul Binary32
                 (fl_sub Binary32 (cast_elem np_float32 x) (py_int Binary32 128))
                 (py_float Binary32 (1 / 10))"
  have m: "builtin_quant_dtype ''quint8'' = Inr ?m"
    by (simp add: builtin_quant_dtype_def builtin_quant_dtypes_def)
  have "list_all2 (\<lambda>v k. (?enc \<circ> Fin) v = ?code k) vs ks"
    using assms(2)
  proof (rule list_all2_mono)
    fix v :: real and k :: int
    assume "\<bar>v - of_int k / 10\<bar> \<le> 3 / 100 \<and> 0 \<le> k + 128 \<and> k + 128 \<le> 255"
    then have a: "\<bar>v - of_int k / 10\<bar> \<le> 3 / 100" and b: "0 \<le> k + 128" and c: "k + 128 \<le> 255"
      by blast+
    show "(?enc \<circ> Fin) v = ?code k"
      unfolding o_def by (rule quantize_elem_tenth [OF a b c]) simp
  qed
  then have "map (?enc \<circ> Fin) vs = map ?code ks"
    by (rule map_eq_list_all2)
  then have enc: "convert_to_quint8 (NdArray a) ?q = Inr \<lparr>dtype = ?q, elems = map ?code ks\<rparr>"
    using convert_to_unsigned [of ?q ?md ?m 128 a] assms(1)
    by (simp add: convert_to_quint8_def with_builtin_def m)
  have rng: "\<forall>k \<in> set ks. 0 \<le> k + 128 \<and> k + 128 \<le> 255"
    using assms(2) by (auto simp: list_all2_conv_all_nth in_set_conv_nth)
  then have "\<forall>k \<in> set ks. \<exists>w. ?dec (?code k) = Fin w \<and>
      fl_mul Binary32 (Fin (of_int k)) (py_float Binary32 (1 / 10)) = Fin w \<and>
      \<bar>w - of_int k / 10\<bar> \<le> 1 / 1000000"
    using dequantize_elem_tenth by blast
  then obtain ws where ws:
    "list_all2 (\<lambda>k w. ?dec (?code k) = Fin w \<and>
       fl_mul Binary32 (Fin (of_int k)) (py_float Binary32 (1 / 10)) = Fin w \<and>
       \<bar>w - of_int k / 10\<bar> \<le> 1 / 1000000) ks ws"
    using list_all2_choose
      [of ks "\<lambda>k w. ?dec (?code k) = Fin w \<and>
         fl_mul Binary32 (Fin (of_int k)) (py_float Binary32 (1 / 10)) = Fin w \<and>
         \<bar>w - of_int k / 10\<bar> \<le> 1 / 1000000"]
    by blast
  then have "list_all2 (\<lambda>k w. (?dec \<circ> ?code) k = Fin w) ks ws"
    by (rule list_all2_mono) simp
  then have "map (?dec \<circ> ?code) ks = map Fin ws"
    by (rule map_eq_list_all2)
  then have dec: "convert_from_quint8 (NdArray \<lparr>dtype = ?q, elems = map ?code ks\<rparr>) =
      Inr \<lparr>dtype = np_float32, elems = map Fin ws\<rparr>"
    using convert_from_unsigned [of ?q ?md ?m 128 "map ?code ks"]
    by (simp add: convert_from_quint8_def with_builtin_def m)
  have near_k: "list_all2 (\<lambda>w k. \<bar>w - of_int k / 10\<bar> \<le> 1 / 1000000) ws ks"
    using ws by (simp add: list_all2_conv_all_nth)
  have prod: "list_all2
      (\<lambda>w k. fl_mul Binary32 (Fin (of_int k)) (py_float Binary32 (1 / 10)) = Fin w) ws ks"
    using ws by (simp add: list_all2_conv_all_nth)
  have near_v: "list_all2 (\<lambda>w v. \<bar>w - v\<bar> \<le> (1 / 10) / 2) ws vs"
    unfolding list_all2_conv_all_nth
  proof (intro conjI allI impI)
    show "length ws = length vs"
      using ws assms(2) by (simp add: list_all2_conv_all_nth)
    fix i assume "i < length ws"
    then have "\<bar>ws ! i - of_int (ks ! i) / 10\<bar> \<le> 1 / 1000000"
      and "\<bar>vs ! i - of_int (ks ! i) / 10\<bar> \<le> 3 / 100"
      using near_k assms(2) by (simp_all add: list_all2_conv_all_nth)
    then show "\<bar>ws ! i - vs ! i\<bar> \<le> (1 / 10) / 2" by linarith
  qed
  from quint8_tenth enc dec prod near_v near_k show ?thesis by blast
qed

theorem quint8_roundtrip_within_half_scale_witness:
  "elems \<lparr>dtype = np_float32, elems = [Fin 1]\<rparr> = map Fin [1] \<and>
   list_all2 (\<lambda>v k. \<bar>v - of_int k / 10\<bar> \<le> 3 / 100 \<and> 0 \<le> k + 128 \<and> k + 128 \<le> 255)
     [1 :: real] [10 :: int] \<and>
   (\<exists>q w. quint8 (1 / 10) (Some 128) = Inr q \<and>
      convert_to_quint8 (NdArray \<lparr>dtype = np_float32, elems = [Fin 1]\<rparr>) q =
        Inr \<lparr>dtype = q, elems = [Fin 138]\<rparr> \<and>
      convert_from_quint8 (NdArray \<lparr>dtype = q, elems = [Fin 138]\<rparr>) =
        Inr \<lparr>dtype = np_float32, elems = [Fin w]\<rparr> \<and>
      \<bar>w - 1\<bar> \<le> (1 / 10) / 2)"
proof -
  have h2: "elems \<lparr>dtype = np_float32, elems = [Fin 1]\<rparr> = map Fin [1]"
    by simp
  have h3: "list_all2 (\<lambda>v k. \<bar>v - of_int k / 10\<bar> \<le> 3 / 100 \<and> 0 \<le> k + 128 \<and> k + 128 \<le> 255)
     [1 :: real] [10 :: int]"
    by simp
  from quint8_roundtrip_within_half_scale [OF h2 h3]
  obtain q ws where q: "quint8 (1 / 10) (Some 128) = Inr q"
    and enc: "convert_to_quint8 (NdArray \<lparr>dtype = np_float32, elems = [Fin 1]\<rparr>) q =
        Inr \<lparr>dtype = q, elems = map (\<lambda>k. Fin (of_int (k + 128))) [10]\<rparr>"
    and dec: "convert_from_quint8
        (NdArray \<lparr>dtype = q, elems = map (\<lambda>k. Fin (of_int (k + 128))) [10]\<rparr>) =
        Inr \<lparr>dtype = np_float32, elems = map Fin ws\<rparr>"
    and near: "list_all2 (\<lambda>w v. \<bar>w - v\<bar> \<le> (1 / 10) / 2) ws [1]"
    by blast
  from near obtain w where w: "ws = [w]" "\<bar>w - 1\<bar> \<le> (1 / 10) / 2"
    by (auto simp: list_all2_Cons2)
  from q enc dec w h2 h3 show ?thesis by auto
qed

text \<open>The value \<open>1.0\<close> itself does come back exactly.\<close>

lemma quint8_roundtrip_of_one:
  "convert_to_quint8 (NdArray \<lparr>dtype = np_float32, elems = [Fin 1]\<rparr>)
     \<lparr>dtype_str = ''uint8'',
      metadata = Some \<lparr>mgb_name = ''Quantized8Asymm'', mgb_scale = 1 / 10,
                        mgb_zero_point = Some 128\<rparr>\<rparr> =
     Inr \<lparr>dtype = \<lparr>dtype_str = ''uint8'',
                    metadata = Some \<lparr>mgb_name = ''Quantized8Asymm'', mgb_scale = 1 / 10,
                                      mgb_zero_point = Some 128\<rparr>\<rparr>,
          elems = [Fin 138]\<rparr> \<and>
   convert_from_quint8
     (NdArray \<lparr>dtype = \<lparr>dtype_str = ''uint8'',
                         metadata = Some \<lparr>mgb_name = ''Quantized8Asymm'', mgb_scale = 1 / 10,
                                           mgb_zero_point = Some 128\<rparr>\<rparr>,
               elems = [Fin 138]\<rparr>) =
     Inr \<lparr>dtype = np_float32, elems = [Fin 1]\<rparr>"
proof -
  let ?m = "\<lparr>name = ''quint8'', cname = Some ''Quantized8Asymm'', np_dtype_str = ''uint8'',
            qmin = 0, qmax = 255, is_unsigned = True\<rparr>"
  let ?md = "\<lparr>mgb_name = ''Quantized8Asymm'', mgb_scale = 1 / 10, mgb_zero_point = Some 128\<rparr>"
  let ?q = "\<lparr>dtype_str = ''uint8'', metadata = Some ?md\<rparr>"
  have m: "builtin_quant_dtype ''quint8'' = Inr ?m"
    by (simp add: builtin_quant_dtype_def builtin_quant_dtypes_def)
  have enc_elem: "cast_elem ?q
      (fl_min (fl_max (fl_add Binary32
                         (rint (fl_div Binary32 (to_format Binary32 (Fin 1))
                                  (py_float Binary32 (1 / 10))))
                         (py_int Binary32 128))
                 (py_int Binary32 0))
         (py_int Binary32 255)) = Fin (of_int (10 + 128))"
    by (rule quantize_elem_tenth) simp_all
  have enc: "convert_to_quint8 (NdArray \<lparr>dtype = np_float32, elems = [Fin 1]\<rparr>) ?q =
      Inr \<lparr>dtype = ?q, elems = [Fin 138]\<rparr>"
    using convert_to_unsigned [of ?q ?md ?m 128 "\<lparr>dtype = np_float32, elems = [Fin 1]\<rparr>"]
      enc_elem
    by (simp add: convert_to_quint8_def with_builtin_def m np_float32_def array_format_def
        float_formats_def)
  have i138: "round_to_format Binary32 138 = Fin 138"
    using round_to_format_int [of 138 Binary32] by simp
  have i10: "round_to_format Binary32 10 = Fin 10"
    using round_to_format_int [of 10 Binary32] by simp
  have ml: "round_to_format Binary32 (10 * (13421773 / 134217728)) = Fin 1"
    by (rule round_to_format_at [where e = 0]) (simp_all add: round_half_even_def)
  have t1: "cast_elem np_float32 (Fin 138) = Fin 138"
    by (simp only: cast_elem_float32 i138)
  have t2: "fl_sub Binary32 (Fin 138) (py_int Binary32 128) = Fin 10"
    using py_int_byte [of 128 Binary32] i10 by (simp add: fl_sub_def)
  have t3: "fl_mul Binary32 (Fin 10) (py_float Binary32 (1 / 10)) = Fin 1"
    using ml by (simp add: py_float32_tenth)
  have dec_elem: "fl_mul Binary32
      (fl_sub Binary32 (cast_elem np_float32 (Fin 138)) (py_int Binary32 128))
      (py_float Binary32 (1 / 10)) = Fin 1"
    by (simp only: t1 t2 t3)
  have dec: "convert_from_quint8 (NdArray \<lparr>dtype = ?q, elems = [Fin 138]\<rparr>) =
      Inr \<lparr>dtype = np_float32, elems = [Fin 1]\<rparr>"
    using convert_from_unsigned [of ?q ?md ?m 128 "[Fin 138]"] dec_elem
    by (simp add: convert_from_quint8_def with_builtin_def m)
  from enc dec show ?thesis by simp
qed

end
